theory Spec2Isabelle
  imports Complex_Main "HOL-Library.Word"
begin

unbundle bit_operations_syntax

section \<open>Package defenv: typed access to environment variables with defaults\<close>

text \<open>
  The package \<^verbatim>\<open>defenv\<close> (file \<^verbatim>\<open>defenv.go\<close>) reads one environment variable with
  \<^verbatim>\<open>os.LookupEnv\<close>, hands its text to a parser of the Go standard library
  (\<^verbatim>\<open>strconv.ParseBool\<close>, \<^verbatim>\<open>strconv.ParseInt\<close>, \<^verbatim>\<open>strconv.ParseUint\<close>,
  \<^verbatim>\<open>strconv.ParseFloat\<close>, \<^verbatim>\<open>time.ParseDuration\<close>) and decides between the parsed value,
  the default and an error. The accessors are those of \<^verbatim>\<open>defenv.go\<close>; the parsers
  \<^verbatim>\<open>ParseBool\<close>, \<^verbatim>\<open>ParseUint\<close> and \<^verbatim>\<open>ParseInt\<close> follow the source of package
  \<^verbatim>\<open>strconv\<close>, which the accessors call.

  Go's multiple results \<^verbatim>\<open>(T, error)\<close> are pairs \<open>T \<times> 'e option\<close>, with \<open>None\<close> for
  \<^verbatim>\<open>nil\<close>. \<^verbatim>\<open>int64\<close>, \<^verbatim>\<open>uint64\<close> and \<^verbatim>\<open>time.Duration\<close> are \<open>64 word\<close>; the
  native \<^verbatim>\<open>int\<close> and \<^verbatim>\<open>uint\<close> are \<open>'a word\<close>, and \<^verbatim>\<open>strconv.IntSize\<close> is the
  width \<open>LENGTH('a)\<close> of that type. Strings are byte sequences.
\<close>

subsection \<open>The environment\<close>

type_synonym environ = "string \<rightharpoonup> string"

text \<open>\<^verbatim>\<open>os.LookupEnv(key)\<close>: the value and whether the variable is present.\<close>

definition LookupEnv :: "environ \<Rightarrow> string \<Rightarrow> string \<times> bool" where
  "LookupEnv env key = (case env key of Some v \<Rightarrow> (v, True) | None \<Rightarrow> ([], False))"

subsection \<open>Errors of package strconv\<close>

text \<open>
  \<^verbatim>\<open>strconv.ErrSyntax\<close>, \<^verbatim>\<open>strconv.ErrRange\<close> and the error of an invalid bit size;
  \<^verbatim>\<open>strconv.NumError\<close> is the struct \<^verbatim>\<open>{Func, Num string; Err error}\<close>.
\<close>

datatype error = ErrSyntax | ErrRange | ErrBitSize int

record NumError =
  Func :: string
  Num :: string
  Err :: error

definition syntaxError :: "string \<Rightarrow> string \<Rightarrow> NumError" where
  "syntaxError fn str = \<lparr>Func = fn, Num = str, Err = ErrSyntax\<rparr>"

definition rangeError :: "string \<Rightarrow> string \<Rightarrow> NumError" where
  "rangeError fn str = \<lparr>Func = fn, Num = str, Err = ErrRange\<rparr>"

definition bitSizeError :: "string \<Rightarrow> string \<Rightarrow> int \<Rightarrow> NumError" where
  "bitSizeError fn str bitSize = \<lparr>Func = fn, Num = str, Err = ErrBitSize bitSize\<rparr>"

text \<open>Decimal rendering of an integer, \<^verbatim>\<open>strconv.Itoa\<close>.\<close>

fun utoa :: "nat \<Rightarrow> string" where
  "utoa n = (if n < 10 then [char_of (48 + n)] else utoa (n div 10) @ [char_of (48 + n mod 10)])"

definition Itoa :: "int \<Rightarrow> string" where
  "Itoa i = (if i < 0 then CHR ''-'' # utoa (nat (- i)) else utoa (nat i))"

text \<open>The messages: \<^verbatim>\<open>err.Error()\<close> of the three errors and of a \<^verbatim>\<open>NumError\<close>:
  \<^verbatim>\<open>"strconv." + e.Func + ": " + "parsing " + Quote(e.Num) + ": " + e.Err.Error()\<close>.
  \<^verbatim>\<open>strconv.Quote\<close> depends on the Unicode tables of the library and is a parameter.\<close>

fun error_Error :: "error \<Rightarrow> string" where
  "error_Error ErrSyntax = ''invalid syntax''"
| "error_Error ErrRange = ''value out of range''"
| "error_Error (ErrBitSize bitSize) = ''invalid bit size '' @ Itoa bitSize"

definition NumError_Error :: "(string \<Rightarrow> string) \<Rightarrow> NumError \<Rightarrow> string" where
  "NumError_Error Quote e =
     ''strconv.'' @ Func e @ '': '' @ ''parsing '' @ Quote (Num e) @ '': '' @ error_Error (Err e)"

subsection \<open>strconv.ParseBool\<close>

text \<open>A \<^verbatim>\<open>switch\<close> over two lists of literals; anything else is a syntax error.\<close>

definition ParseBool :: "string \<Rightarrow> bool \<times> NumError option" where
  "ParseBool str =
     (if str \<in> set [''1'', ''t'', ''T'', ''true'', ''TRUE'', ''True''] then (True, None)
      else if str \<in> set [''0'', ''f'', ''F'', ''false'', ''FALSE'', ''False''] then (False, None)
      else (False, Some (syntaxError ''ParseBool'' str)))"

subsection \<open>strconv.ParseUint and strconv.ParseInt, base 10\<close>

text \<open>
  Every call in \<^verbatim>\<open>defenv.go\<close> passes base 10, and the two functions are modelled at
  that base: no prefix is looked for and an underscore is not a separator.

  \<^verbatim>\<open>lower(c)\<close> is \<^verbatim>\<open>c | ('x' - 'X')\<close>. A byte is a digit \<^verbatim>\<open>'0'..'9'\<close>, a letter (of
  value 10 and more) or neither.
\<close>

definition lower :: "char \<Rightarrow> nat" where
  "lower c = (of_char c) OR 32"

definition digitVal :: "char \<Rightarrow> nat option" where
  "digitVal c =
     (if 48 \<le> (of_char c :: nat) \<and> (of_char c :: nat) \<le> 57 then Some (of_char c - 48)
      else if 97 \<le> lower c \<and> lower c \<le> 122 then Some (lower c - 97 + 10)
      else None)"

text \<open>\<^verbatim>\<open>cutoff = maxUint64/10 + 1\<close>: the smallest number whose tenfold exceeds
  \<^verbatim>\<open>maxUint64\<close>.\<close>

definition cutoff10 :: "64 word" where
  "cutoff10 = (- 1) div 10 + 1"

text \<open>
  The loop over the bytes of the string, \<open>n\<close> the number read so far:
  a byte that is no digit of the base is a syntax error; a product or a sum that
  leaves the range is a range error, returned with \<open>maxVal\<close>.
\<close>

fun ParseUint_loop :: "string \<Rightarrow> 64 word \<Rightarrow> string \<Rightarrow> 64 word \<Rightarrow> 64 word \<times> NumError option" where
  "ParseUint_loop s0 maxVal [] n = (n, None)"
| "ParseUint_loop s0 maxVal (c # cs) n =
     (case digitVal c of
        None \<Rightarrow> (0, Some (syntaxError ''ParseUint'' s0))
      | Some d \<Rightarrow>
          if d \<ge> 10 then (0, Some (syntaxError ''ParseUint'' s0))
          else if n \<ge> cutoff10 then (maxVal, Some (rangeError ''ParseUint'' s0))
          else
            let n' = n * 10;
                n1 = n' + of_nat d
            in if n1 < n' \<or> n1 > maxVal then (maxVal, Some (rangeError ''ParseUint'' s0))
               else ParseUint_loop s0 maxVal cs n1)"

definition ParseUint :: "nat \<Rightarrow> string \<Rightarrow> int \<Rightarrow> 64 word \<times> NumError option" where
  "ParseUint IntSize s bitSize =
     (if s = [] then (0, Some (syntaxError ''ParseUint'' s))
      else if bitSize \<noteq> 0 \<and> (bitSize < 0 \<or> bitSize > 64)
        then (0, Some (bitSizeError ''ParseUint'' s bitSize))
      else
        let bits = (if bitSize = 0 then IntSize else nat bitSize);
            maxVal = push_bit bits 1 - 1
        in ParseUint_loop s maxVal s 0)"

text \<open>
  \<^verbatim>\<open>ParseInt\<close> picks off a leading sign, reads the rest with \<^verbatim>\<open>ParseUint\<close>, renames
  an error that is not a range error, and checks the magnitude against
  \<^verbatim>\<open>cutoff = 1 << (bitSize-1)\<close>.
\<close>

definition ParseInt :: "nat \<Rightarrow> string \<Rightarrow> int \<Rightarrow> 64 word \<times> NumError option" where
  "ParseInt IntSize s bitSize =
     (if s = [] then (0, Some (syntaxError ''ParseInt'' s))
      else
        let s0 = s;
            neg = (hd s = CHR ''-'');
            s' = (if hd s = CHR ''+'' \<or> hd s = CHR ''-'' then tl s else s);
            (un, err) = ParseUint IntSize s' bitSize
        in if (case err of Some e \<Rightarrow> Err e \<noteq> ErrRange | None \<Rightarrow> False)
           then (0, map_option (\<lambda>e. e\<lparr>Func := ''ParseInt'', Num := s0\<rparr>) err)
           else
             let bits = (if bitSize = 0 then IntSize else nat bitSize);
                 cutoff = (push_bit (bits - 1) 1 :: 64 word)
             in if \<not> neg \<and> un \<ge> cutoff then (cutoff - 1, Some (rangeError ''ParseInt'' s0))
                else if neg \<and> un > cutoff then (- cutoff, Some (rangeError ''ParseInt'' s0))
                else (if neg then - un else un, None))"

subsection \<open>The accessors of defenv.go\<close>

text \<open>
  Each accessor takes the environment it reads as its first argument. \<^verbatim>\<open>Int\<close> is
  written \<open>Int'\<close>, since \<open>Int\<close> is the ASCII notation of set intersection.
  The four accessors for durations and floats take the library parser they call as a
  parameter, with any type of errors, and \<^verbatim>\<open>float64\<close> is any type with a zero: what
  is proved of them for every parser holds whatever the release of the library. The
  parsers meant are \<open>ParseDuration\<close> and \<open>ParseFloat\<close>, modelled further down.
\<close>

definition Bool :: "environ \<Rightarrow> string \<Rightarrow> bool \<Rightarrow> bool" where
  "Bool env name defaultValue =
     (let (strVal, ok) = LookupEnv env name
      in if ok
         then (let (res, err) = ParseBool strVal
               in if err = None then res else defaultValue)
         else defaultValue)"

definition BoolStrict :: "environ \<Rightarrow> string \<Rightarrow> bool \<Rightarrow> bool \<times> NumError option" where
  "BoolStrict env name defaultValue =
     (let (strVal, ok) = LookupEnv env name
      in if ok
         then (let (res, err) = ParseBool strVal
               in if err \<noteq> None then (False, err) else (res, None))
         else (defaultValue, None))"

definition Duration ::
  "(string \<Rightarrow> 64 word \<times> 'e option) \<Rightarrow> environ \<Rightarrow> string \<Rightarrow> 64 word \<Rightarrow> 64 word" where
  "Duration ParseDuration env name defaultValue =
     (let (strVal, ok) = LookupEnv env name
      in if ok
         then (let (d, err) = ParseDuration strVal
               in if err = None then d else defaultValue)
         else defaultValue)"

definition DurationStrict ::
  "(string \<Rightarrow> 64 word \<times> 'e option) \<Rightarrow> environ \<Rightarrow> string \<Rightarrow> 64 word
     \<Rightarrow> 64 word \<times> 'e option" where
  "DurationStrict ParseDuration env name defaultValue =
     (let (strVal, ok) = LookupEnv env name
      in if ok
         then (let (d, err) = ParseDuration strVal
               in if err \<noteq> None then (0, err) else (d, None))
         else (defaultValue, None))"

definition Float64 ::
  "(string \<Rightarrow> int \<Rightarrow> 'f \<times> 'e option) \<Rightarrow> environ \<Rightarrow> string \<Rightarrow> 'f \<Rightarrow> 'f" where
  "Float64 ParseFloat env name defaultValue =
     (let (strVal, ok) = LookupEnv env name
      in if ok
         then (let (f, err) = ParseFloat strVal 64
               in if err = None then f else defaultValue)
         else defaultValue)"

definition Float64Strict ::
  "(string \<Rightarrow> int \<Rightarrow> 'f \<times> 'e option) \<Rightarrow> environ \<Rightarrow> string \<Rightarrow> 'f::zero
     \<Rightarrow> 'f \<times> 'e option" where
  "Float64Strict ParseFloat env name defaultValue =
     (let (strVal, ok) = LookupEnv env name
      in if ok
         then (let (f, err) = ParseFloat strVal 64
               in if err \<noteq> None then (0, err) else (f, None))
         else (defaultValue, None))"

definition Int' :: "environ \<Rightarrow> string \<Rightarrow> 'a::len word \<Rightarrow> 'a word" where
  "Int' env name defaultValue =
     (let (strVal, ok) = LookupEnv env name
      in if ok
         then (let (i64, err) = ParseInt LENGTH('a) strVal 0
               in if err = None then scast i64 else defaultValue)
         else defaultValue)"

definition IntStrict :: "environ \<Rightarrow> string \<Rightarrow> 'a::len word \<Rightarrow> 'a word \<times> NumError option" where
  "IntStrict env name defaultValue =
     (let (strVal, ok) = LookupEnv env name
      in if ok
         then (let (i64, err) = ParseInt LENGTH('a) strVal 0
               in if err \<noteq> None then (0, err) else (scast i64, None))
         else (defaultValue, None))"

definition Int64 :: "environ \<Rightarrow> string \<Rightarrow> 64 word \<Rightarrow> 64 word" where
  "Int64 env name defaultValue =
     (let (strVal, ok) = LookupEnv env name
      in if ok
         then (let (i64, err) = ParseInt 64 strVal 64
               in if err = None then i64 else defaultValue)
         else defaultValue)"

definition Int64Strict :: "environ \<Rightarrow> string \<Rightarrow> 64 word \<Rightarrow> 64 word \<times> NumError option" where
  "Int64Strict env name defaultValue =
     (let (strVal, ok) = LookupEnv env name
      in if ok
         then (let (i64, err) = ParseInt 64 strVal 64
               in if err \<noteq> None then (0, err) else (i64, None))
         else (defaultValue, None))"

definition String :: "environ \<Rightarrow> string \<Rightarrow> string \<Rightarrow> string" where
  "String env name defaultValue =
     (let (val, ok) = LookupEnv env name
      in if ok then val else defaultValue)"

definition Uint :: "environ \<Rightarrow> string \<Rightarrow> 'a::len word \<Rightarrow> 'a word" where
  "Uint env name defaultValue =
     (let (strVal, ok) = LookupEnv env name
      in if ok
         then (let (i64, err) = ParseUint LENGTH('a) strVal 0
               in if err = None then ucast i64 else defaultValue)
         else defaultValue)"

definition UintStrict :: "environ \<Rightarrow> string \<Rightarrow> 'a::len word \<Rightarrow> 'a word \<times> NumError option" where
  "UintStrict env name defaultValue =
     (let (strVal, ok) = LookupEnv env name
      in if ok
         then (let (i64, err) = ParseUint LENGTH('a) strVal 0
               in if err \<noteq> None then (0, err) else (ucast i64, None))
         else (defaultValue, None))"

definition Uint64 :: "environ \<Rightarrow> string \<Rightarrow> 64 word \<Rightarrow> 64 word" where
  "Uint64 env name defaultValue =
     (let (strVal, ok) = LookupEnv env name
      in if ok
         then (let (i64, err) = ParseUint 64 strVal 64
               in if err = None then i64 else defaultValue)
         else defaultValue)"

definition Uint64Strict :: "environ \<Rightarrow> string \<Rightarrow> 64 word \<Rightarrow> 64 word \<times> NumError option" where
  "Uint64Strict env name defaultValue =
     (let (strVal, ok) = LookupEnv env name
      in if ok
         then (let (i64, err) = ParseUint 64 strVal 64
               in if err \<noteq> None then (0, err) else (i64, None))
         else (defaultValue, None))"

subsection \<open>Decimal numerals\<close>

text \<open>
  The vocabulary of the properties of \<^verbatim>\<open>ParseUint\<close> and \<^verbatim>\<open>ParseInt\<close>: a decimal digit,
  and the number that a string of decimal digits denotes, read from the left.
\<close>

definition isDigit :: "char \<Rightarrow> bool" where
  "isDigit c = (48 \<le> (of_char c :: nat) \<and> (of_char c :: nat) \<le> 57)"

fun decimalFrom :: "nat \<Rightarrow> string \<Rightarrow> nat" where
  "decimalFrom n [] = n"
| "decimalFrom n (c # cs) = decimalFrom (10 * n + (of_char c - 48)) cs"

definition decimal :: "string \<Rightarrow> nat" where
  "decimal cs = decimalFrom 0 cs"

subsection \<open>Stand-ins for the two library parsers\<close>

text \<open>
  Two parsers to put in the place of \<^verbatim>\<open>time.ParseDuration\<close> and \<^verbatim>\<open>strconv.ParseFloat\<close>
  when a property is evaluated at a concrete input. They answer as the tests of the
  package expect on the texts \<^verbatim>\<open>200ms\<close>, \<^verbatim>\<open>30\<close> and \<^verbatim>\<open>1.5\<close>, and fail on every other
  text.
\<close>

abbreviation sampleParseDuration :: "string \<Rightarrow> 64 word \<times> string option" where
  "sampleParseDuration \<equiv> \<lambda>s.
     if s = ''200ms'' then (200000000, None)
     else if s = ''30'' then (0, Some ''time: missing unit in duration 30'')
     else (0, Some (''time: invalid duration '' @ s))"

abbreviation sampleParseFloat :: "string \<Rightarrow> int \<Rightarrow> real \<times> NumError option" where
  "sampleParseFloat \<equiv> \<lambda>s bitSize.
     if s = ''1.5'' then (3 / 2, None) else (0, Some (syntaxError ''ParseFloat'' s))"

text \<open>\<^verbatim>\<open>strconv.Quote\<close> on printable ASCII text without a quote or a backslash: the
  text between two double quotes.\<close>

abbreviation sampleQuote :: "string \<Rightarrow> string" where
  "sampleQuote \<equiv> \<lambda>s. CHR 0x22 # s @ [CHR 0x22]"

subsection \<open>Equality up to the case of ASCII letters\<close>

text \<open>
  The reading of ``case-insensitive form'' in the description of the boolean texts:
  two texts are equal once every upper-case ASCII letter is replaced by its lower-case
  letter. It is used to state what \<^verbatim>\<open>ParseBool\<close> does not do; no function of the package
  computes it.
\<close>

definition asciiLower :: "char \<Rightarrow> char" where
  "asciiLower c =
     (if 65 \<le> (of_char c :: nat) \<and> (of_char c :: nat) \<le> 90 then char_of (of_char c + 32 :: nat)
      else c)"

definition equalFold :: "string \<Rightarrow> string \<Rightarrow> bool" where
  "equalFold s t = (map asciiLower s = map asciiLower t)"

subsection \<open>time.ParseDuration\<close>

text \<open>
  \<^verbatim>\<open>time.ParseDuration\<close> as the library has it in the releases whose error messages the
  tests of the package expect (up to Go 1.14: the message ends with the text as it is,
  without quotes). An \<^verbatim>\<open>int64\<close> is a \<open>64 word\<close>, compared as a signed number through
  \<open>sint\<close>; an error made with \<^verbatim>\<open>errors.New\<close> is its message.

  \<^verbatim>\<open>leadingInt\<close> consumes the leading \<^verbatim>\<open>[0-9]*\<close>: the number, the rest of the string, and
  an error when the number leaves the range.
\<close>

definition errLeadingInt :: string where
  "errLeadingInt = ''time: bad [0-9]*''"

fun leadingInt_loop :: "64 word \<Rightarrow> string \<Rightarrow> 64 word \<times> string \<times> string option" where
  "leadingInt_loop x [] = (x, [], None)"
| "leadingInt_loop x (c # cs) =
     (if (of_char c :: nat) < 48 \<or> 57 < (of_char c :: nat) then (x, c # cs, None)
      else if sint (922337203685477580 :: 64 word) < sint x then (0, [], Some errLeadingInt)
      else
        let x' = x * 10 + of_nat (of_char c) - 48
        in if sint x' < 0 then (0, [], Some errLeadingInt)
           else leadingInt_loop x' cs)"

definition leadingInt :: "string \<Rightarrow> 64 word \<times> string \<times> string option" where
  "leadingInt s = leadingInt_loop 0 s"

text \<open>
  \<^verbatim>\<open>leadingFraction\<close> consumes the leading \<^verbatim>\<open>[0-9]*\<close> of a fraction. On overflow it stops
  accumulating and goes on consuming. Its \<^verbatim>\<open>scale\<close> is a \<^verbatim>\<open>float64\<close> that starts at 1 and
  is multiplied by 10 for every digit accumulated, at most 19 times: it is the power of
  ten \<open>10 ^ k\<close>, exactly, and the model keeps the exponent \<open>k\<close>.
\<close>

fun leadingFraction_loop :: "64 word \<Rightarrow> nat \<Rightarrow> bool \<Rightarrow> string \<Rightarrow> 64 word \<times> nat \<times> string" where
  "leadingFraction_loop x k overflow [] = (x, k, [])"
| "leadingFraction_loop x k overflow (c # cs) =
     (if (of_char c :: nat) < 48 \<or> 57 < (of_char c :: nat) then (x, k, c # cs)
      else if overflow then leadingFraction_loop x k overflow cs
      else if sint (922337203685477580 :: 64 word) < sint x then leadingFraction_loop x k True cs
      else
        let y = x * 10 + of_nat (of_char c) - 48
        in if sint y < 0 then leadingFraction_loop x k True cs
           else leadingFraction_loop y (Suc k) overflow cs)"

definition leadingFraction :: "string \<Rightarrow> 64 word \<times> nat \<times> string" where
  "leadingFraction s = leadingFraction_loop 0 0 False s"

text \<open>The units \<^verbatim>\<open>ns\<close>, \<^verbatim>\<open>us\<close>, \<^verbatim>\<open>ms\<close>, \<^verbatim>\<open>s\<close>, \<^verbatim>\<open>m\<close>, \<^verbatim>\<open>h\<close>, and the microsecond
  written with the micro sign U+00B5 or the Greek letter U+03BC, in UTF-8.\<close>

definition unitMap :: "string \<Rightarrow> 64 word option" where
  "unitMap u =
     (if u = ''ns'' then Some 1
      else if u = ''us'' then Some 1000
      else if u = [CHR 0xC2, CHR 0xB5, CHR ''s''] then Some 1000
      else if u = [CHR 0xCE, CHR 0xBC, CHR ''s''] then Some 1000
      else if u = ''ms'' then Some 1000000
      else if u = ''s'' then Some 1000000000
      else if u = ''m'' then Some 60000000000
      else if u = ''h'' then Some 3600000000000
      else None)"

text \<open>
  The fraction of a unit, \<^verbatim>\<open>int64(float64(f) * (float64(unit) / scale))\<close>, in IEEE 754
  double precision: a conversion, a division and a multiplication, each rounded to the
  nearest number of 53 significant bits, ties to even, and a truncation. Here \<open>f\<close> is
  positive and below \<open>2 ^ 63\<close>, \<open>unit\<close> is one of the units above (exact as a
  \<^verbatim>\<open>float64\<close>) and \<open>scale\<close> is \<open>10 ^ k\<close> with \<open>k \<le> 19\<close> (exact as well), so every
  number in the computation is normal and is a natural number over a power of two.

  \<open>bitlen n\<close> is the number of bits of \<open>n\<close>; \<open>round53 n\<close> rounds a natural number to 53
  significant bits; \<open>roundDiv a b\<close> is the integer nearest to \<open>a / b\<close>, ties to even.
  The quotient \<open>unit / scale\<close> is \<open>m / 2 ^ t\<close> with \<open>2 ^ 52 \<le> m \<le> 2 ^ 53\<close>.
\<close>

fun bitlen :: "nat \<Rightarrow> nat" where
  "bitlen n = (if n = 0 then 0 else Suc (bitlen (n div 2)))"

definition roundDiv :: "nat \<Rightarrow> nat \<Rightarrow> nat" where
  "roundDiv a b =
     (let q = a div b; r = a mod b
      in if b < 2 * r \<or> (2 * r = b \<and> odd q) then q + 1 else q)"

definition round53 :: "nat \<Rightarrow> nat" where
  "round53 n =
     (if bitlen n \<le> 53 then n
      else let sh = bitlen n - 53 in roundDiv n (2 ^ sh) * 2 ^ sh)"

definition fractionOfUnit :: "64 word \<Rightarrow> 64 word \<Rightarrow> nat \<Rightarrow> 64 word" where
  "fractionOfUnit f unit k =
     (let scale = (10 :: nat) ^ k;
          t0 = 52 + bitlen scale - bitlen (unat unit);
          t = (if 2 ^ 52 * scale \<le> unat unit * 2 ^ t0 then t0 else t0 + 1);
          m = roundDiv (unat unit * 2 ^ t) scale;
          product = round53 (round53 (unat f) * m)
      in of_nat (product div 2 ^ t))"

text \<open>
  One turn of the loop of \<^verbatim>\<open>ParseDuration\<close> over \<^verbatim>\<open>[0-9]*(\.[0-9]*)?[a-z]+\<close>, on a string
  that is not empty: an error message, or the rest of the string and the new sum.
\<close>

definition isUnitByte :: "char \<Rightarrow> bool" where
  "isUnitByte c = (\<not> (c = CHR ''.'' \<or> (48 \<le> (of_char c :: nat) \<and> (of_char c :: nat) \<le> 57)))"

definition ParseDuration_step :: "string \<Rightarrow> string \<Rightarrow> 64 word \<Rightarrow> string + string \<times> 64 word" where
  "ParseDuration_step orig s d =
     (if \<not> (hd s = CHR ''.'' \<or> (48 \<le> (of_char (hd s) :: nat) \<and> (of_char (hd s) :: nat) \<le> 57))
      then Inl (''time: invalid duration '' @ orig)
      else
        let (v, s1, err) = leadingInt s
        in if err \<noteq> None then Inl (''time: invalid duration '' @ orig)
           else
             let pre = (length s \<noteq> length s1);
                 dot = (s1 \<noteq> [] \<and> hd s1 = CHR ''.'');
                 (f, k, s2) = (if dot then leadingFraction (tl s1) else (0, 0, s1));
                 post = (dot \<and> length (tl s1) \<noteq> length s2)
             in if \<not> pre \<and> \<not> post then Inl (''time: invalid duration '' @ orig)
                else
                  let u = takeWhile isUnitByte s2;
                      s3 = dropWhile isUnitByte s2
                  in if u = [] then Inl (''time: missing unit in duration '' @ orig)
                     else
                       case unitMap u of
                         None \<Rightarrow> Inl (''time: unknown unit '' @ u @ '' in duration '' @ orig)
                       | Some unit \<Rightarrow>
                           if sint (9223372036854775807 div unit) < sint v
                           then Inl (''time: invalid duration '' @ orig)
                           else
                             let v1 = v * unit;
                                 v2 = (if 0 < sint f then v1 + fractionOfUnit f unit k else v1)
                             in if 0 < sint f \<and> sint v2 < 0
                                then Inl (''time: invalid duration '' @ orig)
                                else
                                  let d' = d + v2
                                  in if sint d' < 0 then Inl (''time: invalid duration '' @ orig)
                                     else Inr (s3, d'))"

text \<open>
  The loop of \<^verbatim>\<open>ParseDuration\<close>. It ends because every turn that does not fail consumes
  at least a byte of its unit: neither \<^verbatim>\<open>leadingInt\<close> nor \<^verbatim>\<open>leadingFraction\<close> lengthens
  the string, and the unit is not empty.
\<close>

function ParseDuration_loop :: "string \<Rightarrow> string \<Rightarrow> 64 word \<Rightarrow> 64 word \<times> string option" where
  "ParseDuration_loop orig s d =
     (if s = [] then (d, None)
      else
        case ParseDuration_step orig s d of
          Inl e \<Rightarrow> (0, Some e)
        | Inr (s', d') \<Rightarrow> ParseDuration_loop orig s' d')"
  by pat_completeness auto
termination
proof (relation "measure (\<lambda>(orig, s, d). length s)")
  show "wf (measure (\<lambda>(orig :: string, s :: string, d :: 64 word). length s))"
    by simp
next
  fix orig s :: string and d :: "64 word" and x s' d'
  assume "s \<noteq> []" and step: "ParseDuration_step orig s d = Inr x" and x: "(s', d') = x"
  have int_rest: "length (fst (snd (leadingInt_loop y t))) \<le> length t" for y t
    by (induction t arbitrary: y) (auto simp add: Let_def le_SucI)
  have fraction_rest: "length (snd (snd (leadingFraction_loop y k ov t))) \<le> length t" for y k ov t
    by (induction t arbitrary: y k ov) (auto simp add: Let_def le_SucI)
  obtain v s1 err where li: "leadingInt s = (v, s1, err)"
    by (cases "leadingInt s") auto
  have l1: "length s1 \<le> length s"
    using int_rest [of 0 s] li by (simp add: leadingInt_def)
  define dot where "dot = (s1 \<noteq> [] \<and> hd s1 = CHR ''.'')"
  obtain f k s2 where lf: "(if dot then leadingFraction (tl s1) else (0, 0, s1)) = (f, k, s2)"
    by (cases "if dot then leadingFraction (tl s1) else (0, 0, s1)") auto
  have l2: "length s2 \<le> length s1"
    using lf fraction_rest [of 0 0 False "tl s1"]
    by (auto simp add: leadingFraction_def split: if_splits)
  have u: "takeWhile isUnitByte s2 \<noteq> []" and s': "s' = dropWhile isUnitByte s2"
    using step x li lf
    by (auto simp add: ParseDuration_step_def Let_def dot_def split: if_splits option.splits)
  have "length (takeWhile isUnitByte s2) + length (dropWhile isUnitByte s2) = length s2"
    by (metis length_append takeWhile_dropWhile_id)
  with u have "length (dropWhile isUnitByte s2) < length s2"
    by (cases "takeWhile isUnitByte s2") auto
  with l1 l2 s' show "((orig, s', d'), orig, s, d) \<in> measure (\<lambda>(orig, s, d). length s)"
    by simp
qed

text \<open>\<^verbatim>\<open>ParseDuration\<close>: the sign, the special case of a lone \<^verbatim>\<open>0\<close>, the empty string, and
  the loop.\<close>

definition ParseDuration :: "string \<Rightarrow> 64 word \<times> string option" where
  "ParseDuration s =
     (let orig = s;
          sign = (s \<noteq> [] \<and> (hd s = CHR ''-'' \<or> hd s = CHR ''+''));
          neg = (sign \<and> hd s = CHR ''-'');
          s' = (if sign then tl s else s)
      in if s' = ''0'' then (0, None)
         else if s' = [] then (0, Some (''time: invalid duration '' @ orig))
         else
           case ParseDuration_loop orig s' 0 of
             (d, Some e) \<Rightarrow> (0, Some e)
           | (d, None) \<Rightarrow> (if neg then - d else d, None))"

subsection \<open>strconv.Quote\<close>

text \<open>
  \<^verbatim>\<open>strconv.Quote\<close> puts a text between double quotes, with the escapes of a Go string
  literal for the bytes that are not printable. It reads the text rune by rune
  (\<^verbatim>\<open>utf8.DecodeRuneInString\<close>) and asks \<^verbatim>\<open>strconv.IsPrint\<close> about each rune. A rune is a
  natural number. For the runes up to \<open>0xFF\<close> \<^verbatim>\<open>IsPrint\<close> is a comparison, written out
  here; for the others it looks the rune up in tables of the Unicode standard, which are
  the parameter \<open>isPrintTable\<close> of the model.

  \<^verbatim>\<open>DecodeRuneInString\<close>: the rune and its width. The conditions on the first byte are
  the content of the library's table \<^verbatim>\<open>first\<close> and of its \<^verbatim>\<open>acceptRanges\<close>.
\<close>

definition RuneError :: nat where
  "RuneError = 0xFFFD"

fun DecodeRuneInString :: "string \<Rightarrow> nat \<times> nat" where
  "DecodeRuneInString [] = (RuneError, 0)"
| "DecodeRuneInString (c0 # cs) =
     (let s0 = (of_char c0 :: nat)
      in if s0 < 0x80 then (s0, 1)
         else if s0 < 0xC2 \<or> 0xF4 < s0 then (RuneError, 1)
         else
           let sz = (if s0 < 0xE0 then 2 else if s0 < 0xF0 then 3 else 4 :: nat);
               lo = (if s0 = 0xE0 then 0xA0 else if s0 = 0xF0 then 0x90 else 0x80 :: nat);
               hi = (if s0 = 0xED then 0x9F else if s0 = 0xF4 then 0x8F else 0xBF :: nat)
           in if length (c0 # cs) < sz then (RuneError, 1)
              else
                let s1 = (of_char (cs ! 0) :: nat)
                in if s1 < lo \<or> hi < s1 then (RuneError, 1)
                   else if sz \<le> 2 then (push_bit 6 (s0 AND 0x1F) OR (s1 AND 0x3F), 2)
                   else
                     let s2 = (of_char (cs ! 1) :: nat)
                     in if s2 < 0x80 \<or> 0xBF < s2 then (RuneError, 1)
                        else if sz \<le> 3
                        then (push_bit 12 (s0 AND 0x0F) OR push_bit 6 (s1 AND 0x3F)
                                OR (s2 AND 0x3F), 3)
                        else
                          let s3 = (of_char (cs ! 2) :: nat)
                          in if s3 < 0x80 \<or> 0xBF < s3 then (RuneError, 1)
                             else (push_bit 18 (s0 AND 0x07) OR push_bit 12 (s1 AND 0x3F)
                                     OR push_bit 6 (s2 AND 0x3F) OR (s3 AND 0x3F), 4))"

text \<open>\<^verbatim>\<open>utf8.EncodeRune\<close>: the bytes of a rune.\<close>

definition EncodeRune :: "nat \<Rightarrow> string" where
  "EncodeRune r =
     (if r \<le> 0x7F then [char_of r]
      else if r \<le> 0x7FF then [char_of (0xC0 OR drop_bit 6 r), char_of (0x80 OR (r AND 0x3F))]
      else
        let r' = (if 0x10FFFF < r \<or> (0xD800 \<le> r \<and> r \<le> 0xDFFF) then RuneError else r)
        in if r' \<le> 0xFFFF
           then [char_of (0xE0 OR drop_bit 12 r'), char_of (0x80 OR (drop_bit 6 r' AND 0x3F)),
                 char_of (0x80 OR (r' AND 0x3F))]
           else [char_of (0xF0 OR drop_bit 18 r'), char_of (0x80 OR (drop_bit 12 r' AND 0x3F)),
                 char_of (0x80 OR (drop_bit 6 r' AND 0x3F)), char_of (0x80 OR (r' AND 0x3F))])"

definition IsPrint :: "(nat \<Rightarrow> bool) \<Rightarrow> nat \<Rightarrow> bool" where
  "IsPrint isPrintTable r =
     (if r \<le> 0xFF
      then (0x20 \<le> r \<and> r \<le> 0x7E) \<or> (0xA1 \<le> r \<and> r \<le> 0xFF \<and> r \<noteq> 0xAD)
      else isPrintTable r)"

definition lowerhex :: "nat \<Rightarrow> char" where
  "lowerhex n = ''0123456789abcdef'' ! n"

text \<open>
  \<^verbatim>\<open>appendEscapedRune\<close> for the quote \<^verbatim>\<open>"\<close>: the quote and the backslash get a backslash;
  a printable rune stands for itself; the others are written \<^verbatim>\<open>\a \b \f \n \r \t \v\<close>,
  \<^verbatim>\<open>\xhh\<close> below the space, \<^verbatim>\<open>\uhhhh\<close> or \<^verbatim>\<open>\Uhhhhhhhh\<close>.
\<close>

definition appendEscapedRune :: "(nat \<Rightarrow> bool) \<Rightarrow> nat \<Rightarrow> string" where
  "appendEscapedRune isPrintTable r =
     (if r = 0x22 \<or> r = 0x5C then [CHR 0x5C, char_of r]
      else if IsPrint isPrintTable r then EncodeRune r
      else if r = 7 then [CHR 0x5C, CHR ''a'']
      else if r = 8 then [CHR 0x5C, CHR ''b'']
      else if r = 12 then [CHR 0x5C, CHR ''f'']
      else if r = 10 then [CHR 0x5C, CHR ''n'']
      else if r = 13 then [CHR 0x5C, CHR ''r'']
      else if r = 9 then [CHR 0x5C, CHR ''t'']
      else if r = 11 then [CHR 0x5C, CHR ''v'']
      else if r < 0x20 then [CHR 0x5C, CHR ''x'', lowerhex (drop_bit 4 r), lowerhex (r AND 0xF)]
      else
        let r' = (if 0x10FFFF < r then 0xFFFD else r)
        in if r' < 0x10000
           then [CHR 0x5C, CHR ''u''] @ map (\<lambda>s. lowerhex (drop_bit s r' AND 0xF)) [12, 8, 4, 0]
           else [CHR 0x5C, CHR ''U'']
                  @ map (\<lambda>s. lowerhex (drop_bit s r' AND 0xF)) [28, 24, 20, 16, 12, 8, 4, 0])"

text \<open>The loop of \<^verbatim>\<open>appendQuotedWith\<close>: a byte that starts no rune is written \<^verbatim>\<open>\xhh\<close>.\<close>

fun appendQuoted :: "(nat \<Rightarrow> bool) \<Rightarrow> string \<Rightarrow> string" where
  "appendQuoted isPrintTable [] = []"
| "appendQuoted isPrintTable (c # cs) =
     (let (r, width) =
            (if 0x80 \<le> (of_char c :: nat) then DecodeRuneInString (c # cs) else (of_char c, 1))
      in if width = 1 \<and> r = RuneError
         then [CHR 0x5C, CHR ''x'', lowerhex (drop_bit 4 (of_char c :: nat)),
               lowerhex ((of_char c :: nat) AND 0xF)] @ appendQuoted isPrintTable cs
         else appendEscapedRune isPrintTable r @ appendQuoted isPrintTable (drop (width - 1) cs))"

definition strconvQuote :: "(nat \<Rightarrow> bool) \<Rightarrow> string \<Rightarrow> string" where
  "strconvQuote isPrintTable s = CHR 0x22 # appendQuoted isPrintTable s @ [CHR 0x22]"

text \<open>The texts that \<^verbatim>\<open>Quote\<close> leaves as they are: printable ASCII without the quote and
  the backslash.\<close>

definition plainByte :: "char \<Rightarrow> bool" where
  "plainByte c =
     (0x20 \<le> (of_char c :: nat) \<and> (of_char c :: nat) \<le> 0x7E
      \<and> (of_char c :: nat) \<noteq> 0x22 \<and> (of_char c :: nat) \<noteq> 0x5C)"

subsection \<open>strconv.ParseFloat\<close>

text \<open>
  \<^verbatim>\<open>strconv.ParseFloat\<close> returns the number with no error, or
  \<^verbatim>\<open>syntaxError(fnParseFloat, s)\<close> with zero where the text is no number, or
  \<^verbatim>\<open>rangeError(fnParseFloat, s)\<close> with an infinity where the number is too large. Telling
  the three apart and computing the number is floating-point work: it is the parameter
  \<open>atof\<close>.
\<close>

datatype 'f conversion = Converted 'f | Malformed | OutOfRange 'f

definition ParseFloat :: "(string \<Rightarrow> int \<Rightarrow> 'f conversion) \<Rightarrow> string \<Rightarrow> int \<Rightarrow> 'f::zero \<times> NumError option" where
  "ParseFloat atof s bitSize =
     (case atof s bitSize of
        Converted f \<Rightarrow> (f, None)
      | Malformed \<Rightarrow> (0, Some (syntaxError ''ParseFloat'' s))
      | OutOfRange f \<Rightarrow> (f, Some (rangeError ''ParseFloat'' s)))"

subsection \<open>The messages of ParseDuration\<close>

text \<open>The three forms of an error message of \<^verbatim>\<open>ParseDuration\<close> on the text \<open>orig\<close>.\<close>

definition durationMessage :: "string \<Rightarrow> string \<Rightarrow> bool" where
  "durationMessage orig e =
     (e = ''time: invalid duration '' @ orig
      \<or> e = ''time: missing unit in duration '' @ orig
      \<or> (\<exists>u. e = ''time: unknown unit '' @ u @ '' in duration '' @ orig))"

section \<open>Properties\<close>

subsection \<open>The lookup\<close>

lemma LookupEnv_absent: "env name = None \<Longrightarrow> LookupEnv env name = ([], False)"
  by (simp add: LookupEnv_def)

lemma LookupEnv_present: "env name = Some v \<Longrightarrow> LookupEnv env name = (v, True)"
  by (simp add: LookupEnv_def)

lemmas ordinary_defs =
  Bool_def Duration_def Float64_def Int'_def Int64_def String_def Uint_def Uint64_def

lemmas strict_defs =
  BoolStrict_def DurationStrict_def Float64Strict_def IntStrict_def Int64Strict_def
  UintStrict_def Uint64Strict_def

subsection \<open>An absent variable\<close>

text \<open>
  Claim C1. When the variable \<open>name\<close> is not in the environment, every ordinary accessor
  (bool, duration, float64, int, int64, string, uint, uint64) returns the default it was
  given, and every strict accessor returns that default with no error. Absence is never
  an error.
\<close>

theorem absent_returns_default:
  assumes "env name = None"
  shows "Bool env name db = db \<and> BoolStrict env name db = (db, None)
    \<and> Duration pd env name dd = dd \<and> DurationStrict pd env name dd = (dd, None)
    \<and> Float64 pf env name df = df \<and> Float64Strict pf env name df = (df, None)
    \<and> Int' env name di = di \<and> IntStrict env name di = (di, None)
    \<and> Int64 env name di64 = di64 \<and> Int64Strict env name di64 = (di64, None)
    \<and> String env name ds = ds
    \<and> Uint env name du = du \<and> UintStrict env name du = (du, None)
    \<and> Uint64 env name du64 = du64 \<and> Uint64Strict env name du64 = (du64, None)"
  using assms by (simp add: ordinary_defs strict_defs LookupEnv_absent)

text \<open>An environment that holds another variable, but not \<^verbatim>\<open>VALUE\<close>.\<close>

theorem absent_returns_default_witness:
  "[''OTHER'' \<mapsto> ''1''] ''VALUE'' = None
   \<and> Bool [''OTHER'' \<mapsto> ''1''] ''VALUE'' True = True
   \<and> BoolStrict [''OTHER'' \<mapsto> ''1''] ''VALUE'' True = (True, None)
   \<and> Duration (\<lambda>s. (0, Some ''time: invalid duration'')) [''OTHER'' \<mapsto> ''1''] ''VALUE''
        3000000000 = 3000000000
   \<and> DurationStrict (\<lambda>s. (0, Some ''time: invalid duration'')) [''OTHER'' \<mapsto> ''1''] ''VALUE''
        3000000000 = (3000000000, None)
   \<and> Float64 (\<lambda>s b. (0, Some (syntaxError ''ParseFloat'' s))) [''OTHER'' \<mapsto> ''1''] ''VALUE''
        (5 / 2 :: real) = 5 / 2
   \<and> Float64Strict (\<lambda>s b. (0, Some (syntaxError ''ParseFloat'' s))) [''OTHER'' \<mapsto> ''1'']
        ''VALUE'' (5 / 2 :: real) = (5 / 2, None)
   \<and> Int' [''OTHER'' \<mapsto> ''1''] ''VALUE'' (321 :: 64 word) = 321
   \<and> IntStrict [''OTHER'' \<mapsto> ''1''] ''VALUE'' (321 :: 64 word) = (321, None)
   \<and> Int64 [''OTHER'' \<mapsto> ''1''] ''VALUE'' 321 = 321
   \<and> Int64Strict [''OTHER'' \<mapsto> ''1''] ''VALUE'' 321 = (321, None)
   \<and> String [''OTHER'' \<mapsto> ''1''] ''VALUE'' ''default'' = ''default''
   \<and> Uint [''OTHER'' \<mapsto> ''1''] ''VALUE'' (321 :: 32 word) = 321
   \<and> UintStrict [''OTHER'' \<mapsto> ''1''] ''VALUE'' (321 :: 32 word) = (321, None)
   \<and> Uint64 [''OTHER'' \<mapsto> ''1''] ''VALUE'' 321 = 321
   \<and> Uint64Strict [''OTHER'' \<mapsto> ''1''] ''VALUE'' 321 = (321, None)"
proof -
  have absent: "[''OTHER'' \<mapsto> ''1''] ''VALUE'' = None"
    by simp
  show ?thesis
    using absent
      absent_returns_default [where env = "[''OTHER'' \<mapsto> ''1'']" and name = "''VALUE''"
        and db = True
        and pd = "\<lambda>s. (0, Some ''time: invalid duration'')" and dd = 3000000000
        and pf = "\<lambda>s b. (0, Some (syntaxError ''ParseFloat'' s))" and df = "5 / 2 :: real"
        and di = "321 :: 64 word" and ?di64.0 = 321 and ds = "''default''"
        and du = "321 :: 32 word" and ?du64.0 = 321]
    by simp
qed

subsection \<open>The loop of ParseUint on a string of digits\<close>

text \<open>
  On decimal digits the loop computes the number the digits denote, as long as it stays
  within \<open>maxVal\<close>, and reports a range error as soon as it does not: the check against
  \<open>cutoff10\<close> keeps the product from wrapping around, and a sum that wraps around is
  smaller than the product.
\<close>

lemma unat_cutoff10: "unat cutoff10 = 1844674407370955162"
  by (simp add: cutoff10_def)

lemma digitVal_isDigit: "isDigit c \<Longrightarrow> digitVal c = Some (of_char c - 48)"
  by (simp add: isDigit_def digitVal_def)

lemma isDigit_less_10: "isDigit c \<Longrightarrow> (of_char c :: nat) - 48 < 10"
  by (auto simp add: isDigit_def)

lemma decimalFrom_ge: "n \<le> decimalFrom n cs"
proof (induction cs arbitrary: n)
  case Nil
  show ?case by simp
next
  case (Cons c cs)
  have "n \<le> 10 * n + (of_char c - 48)" by simp
  also have "\<dots> \<le> decimalFrom (10 * n + (of_char c - 48)) cs" by (rule Cons.IH)
  finally show ?case by simp
qed

lemma ParseUint_loop_digits:
  assumes "list_all isDigit cs" and "unat n \<le> unat maxVal"
  shows "ParseUint_loop s0 maxVal cs n =
    (if decimalFrom (unat n) cs \<le> unat maxVal then (of_nat (decimalFrom (unat n) cs), None)
     else (maxVal, Some (rangeError ''ParseUint'' s0)))"
  using assms
proof (induction cs arbitrary: n)
  case Nil
  then show ?case by simp
next
  case (Cons c cs)
  define d where "d = (of_char c :: nat) - 48"
  have dig: "digitVal c = Some d" and d10: "d < 10"
    using Cons.prems(1) by (simp_all add: d_def digitVal_isDigit isDigit_less_10)
  have rest: "list_all isDigit cs"
    using Cons.prems(1) by simp
  have maxVal_bound: "unat maxVal < 18446744073709551616"
    using unsigned_less [of maxVal, where 'a = nat] by simp
  have step: "decimalFrom (unat n) (c # cs) = decimalFrom (10 * unat n + d) cs"
    by (simp add: d_def)
  have ge: "10 * unat n + d \<le> decimalFrom (unat n) (c # cs)"
    using decimalFrom_ge [of "10 * unat n + d" cs] by (simp add: d_def)
  show ?case
  proof (cases "cutoff10 \<le> n")
    case True
    then have "1844674407370955162 \<le> unat n"
      by (simp add: word_le_nat_alt unat_cutoff10)
    then have "unat maxVal < decimalFrom (unat n) (c # cs)"
      using ge maxVal_bound by linarith
    then show ?thesis
      using True dig d10 by simp
  next
    case False
    then have small: "unat n \<le> 1844674407370955161"
      by (simp add: word_le_nat_alt unat_cutoff10)
    have mul: "unat (n * 10) = 10 * unat n"
      using small by (simp add: unat_word_ariths)
    have ud: "unat (of_nat d :: 64 word) = d"
      using d10 by (simp add: unat_of_nat)
    show ?thesis
    proof (cases "10 * unat n + d < 18446744073709551616")
      case wrap: False
      have "unat (n * 10 + of_nat d) = 10 * unat n + d - 18446744073709551616"
        using wrap small d10 by (simp add: unat_plus_if' mul ud)
      moreover have "10 * unat n + d - 18446744073709551616 < 10 * unat n"
        using wrap d10 by linarith
      ultimately have "n * 10 + of_nat d < n * 10"
        by (simp add: word_less_nat_alt mul)
      moreover have "unat maxVal < decimalFrom (unat n) (c # cs)"
        using ge maxVal_bound wrap by linarith
      ultimately show ?thesis
        using False dig d10 by (simp add: Let_def)
    next
      case nowrap: True
      have sum: "unat (n * 10 + of_nat d) = 10 * unat n + d"
        using nowrap by (simp add: unat_plus_if' mul ud)
      then have notless: "\<not> n * 10 + of_nat d < n * 10"
        by (simp add: word_less_nat_alt mul)
      show ?thesis
      proof (cases "maxVal < n * 10 + of_nat d")
        case True
        then have "unat maxVal < 10 * unat n + d"
          by (simp add: word_less_nat_alt sum)
        then have "unat maxVal < decimalFrom (unat n) (c # cs)"
          using ge by linarith
        then show ?thesis
          using \<open>\<not> cutoff10 \<le> n\<close> True dig d10 by (simp add: Let_def)
      next
        case False
        then have "unat (n * 10 + of_nat d) \<le> unat maxVal"
          by (simp add: word_less_nat_alt)
        from Cons.IH [OF rest this]
        have "ParseUint_loop s0 maxVal cs (n * 10 + of_nat d) =
          (if decimalFrom (10 * unat n + d) cs \<le> unat maxVal
           then (of_nat (decimalFrom (10 * unat n + d) cs), None)
           else (maxVal, Some (rangeError ''ParseUint'' s0)))"
          by (simp only: sum)
        moreover have "ParseUint_loop s0 maxVal (c # cs) n =
          ParseUint_loop s0 maxVal cs (n * 10 + of_nat d)"
          using \<open>\<not> cutoff10 \<le> n\<close> False notless dig d10 by (simp add: Let_def)
        ultimately show ?thesis
          by (simp only: step)
      qed
    qed
  qed
qed

subsection \<open>ParseUint and ParseInt: results and errors\<close>

lemma unat_pow2: "W < 64 \<Longrightarrow> unat (2 ^ W :: 64 word) = 2 ^ W"
proof -
  assume W: "W < 64"
  have "(2 ^ W :: 64 word) = of_nat (2 ^ W)"
    by simp
  then have "unat (2 ^ W :: 64 word) = 2 ^ W mod 2 ^ 64"
    by (simp only: unat_of_nat) simp
  moreover have "(2 :: nat) ^ W < 2 ^ 64"
    using W by (simp only: power_strict_increasing_iff one_less_numeral_iff semiring_norm)
  ultimately show ?thesis
    by simp
qed

lemma unat_maxVal: "W \<le> 64 \<Longrightarrow> unat (push_bit W 1 - 1 :: 64 word) = 2 ^ W - 1"
proof (cases "W = 64")
  case True
  then show ?thesis by simp
next
  case False
  assume "W \<le> 64"
  with False have W: "W < 64" by simp
  then have "unat (2 ^ W :: 64 word) = 2 ^ W"
    by (rule unat_pow2)
  moreover from this have "(2 ^ W :: 64 word) \<noteq> 0"
    by (metis unat_0 power_not_zero zero_neq_numeral)
  ultimately show ?thesis
    by (simp add: push_bit_of_1 unat_minus_one)
qed

lemma unat_cutoff: "1 \<le> W \<Longrightarrow> W \<le> 64 \<Longrightarrow> unat (push_bit (W - 1) 1 :: 64 word) = 2 ^ (W - 1)"
  by (simp add: push_bit_of_1 unat_pow2)

lemma ParseUint_digits:
  assumes "cs \<noteq> []" and "list_all isDigit cs" and "W \<le> 64"
  shows "ParseUint W cs 0 =
    (if decimal cs \<le> 2 ^ W - 1 then (of_nat (decimal cs), None)
     else (push_bit W 1 - 1, Some (rangeError ''ParseUint'' cs)))"
proof -
  have "ParseUint W cs 0 = ParseUint_loop cs (push_bit W 1 - 1) cs 0"
    using assms(1) by (simp add: ParseUint_def Let_def)
  also have "\<dots> =
    (if decimalFrom (unat (0 :: 64 word)) cs \<le> unat (push_bit W 1 - 1 :: 64 word)
     then (of_nat (decimalFrom (unat (0 :: 64 word)) cs), None)
     else (push_bit W 1 - 1, Some (rangeError ''ParseUint'' cs)))"
    using assms(2) by (intro ParseUint_loop_digits) simp_all
  finally show ?thesis
    by (simp only: unat_maxVal [OF assms(3)] decimal_def unat_0)
qed




lemma ParseUint_native64: "ParseUint 64 s 0 = ParseUint 64 s 64"
  by (simp add: ParseUint_def)

lemma ParseInt_native64: "ParseInt 64 s 0 = ParseInt 64 s 64"
  by (simp add: ParseInt_def ParseUint_native64 Let_def split_beta)

lemma digitVal_minus: "digitVal CHR ''-'' = None"
  by (simp add: digitVal_def lower_def)

lemma ParseUint_leading_minus:
  "bitSize = 0 \<or> bitSize = 64 \<Longrightarrow>
   ParseUint IntSize (CHR ''-'' # rest) bitSize =
     (0, Some (syntaxError ''ParseUint'' (CHR ''-'' # rest)))"
  by (auto simp add: ParseUint_def digitVal_minus)

lemma isDigit_not_sign: "isDigit c \<Longrightarrow> c \<noteq> CHR ''+'' \<and> c \<noteq> CHR ''-''"
  by (auto simp add: isDigit_def)

lemma pow2_bounds:
  assumes "2 \<le> W" and "W \<le> 64"
  shows "(2 :: nat) ^ (W - 1) < 2 ^ W - 1" and "(2 :: nat) ^ W \<le> 18446744073709551616"
proof -
  from assms(1) obtain k where W: "W = 2 + k"
    by (auto simp add: le_iff_add)
  have x: "(1 :: nat) \<le> 2 ^ k"
    by simp
  have "(2 :: nat) ^ (W - 1) = 2 * 2 ^ k" and "(2 :: nat) ^ W = 4 * 2 ^ k"
    by (simp_all add: W)
  with x show "(2 :: nat) ^ (W - 1) < 2 ^ W - 1"
    by linarith
  have "(2 :: nat) ^ W \<le> 2 ^ 64"
    by (rule power_increasing) (use assms(2) in simp_all)
  also have "(2 :: nat) ^ 64 = 18446744073709551616"
    by simp
  finally show "(2 :: nat) ^ W \<le> 18446744073709551616" .
qed

lemma ParseInt_after_ParseUint:
  assumes "s \<noteq> []"
    and "ParseUint IntSize (if hd s = CHR ''+'' \<or> hd s = CHR ''-'' then tl s else s) 0 = (un, err)"
    and "err = None \<or> err = Some (rangeError ''ParseUint'' x)"
    and "cutoff = push_bit (IntSize - 1) 1"
  shows "ParseInt IntSize s 0 =
    (if hd s \<noteq> CHR ''-'' \<and> cutoff \<le> un then (cutoff - 1, Some (rangeError ''ParseInt'' s))
     else if hd s = CHR ''-'' \<and> cutoff < un then (- cutoff, Some (rangeError ''ParseInt'' s))
     else (if hd s = CHR ''-'' then - un else un, None))"
  using assms(1,3) unfolding ParseInt_def assms(2,4) Let_def
  by (auto simp add: rangeError_def)

lemma ParseInt_digits:
  assumes ds: "ds \<noteq> []" "list_all isDigit ds"
    and W: "2 \<le> W" "W \<le> 64"
    and s: "s = ds \<or> s = CHR ''+'' # ds \<or> s = CHR ''-'' # ds"
  shows "ParseInt W s 0 =
    (if hd s = CHR ''-''
     then (if decimal ds \<le> 2 ^ (W - 1) then (- of_nat (decimal ds), None)
           else (- push_bit (W - 1) 1, Some (rangeError ''ParseInt'' s)))
     else (if decimal ds < 2 ^ (W - 1) then (of_nat (decimal ds), None)
           else (push_bit (W - 1) 1 - 1, Some (rangeError ''ParseInt'' s))))"
proof -
  define cutoff :: "64 word" where "cutoff = push_bit (W - 1) 1"
  define h :: nat where "h = 2 ^ (W - 1)"
  have "isDigit (hd ds)"
    using ds by (cases ds) simp_all
  then have nosign: "hd ds \<noteq> CHR ''+''" "hd ds \<noteq> CHR ''-''"
    using isDigit_not_sign by blast+
  have rest: "(if hd s = CHR ''+'' \<or> hd s = CHR ''-'' then tl s else s) = ds"
    using s nosign by auto
  have nonempty: "s \<noteq> []"
    using s ds by auto
  have cut: "unat cutoff = h"
    unfolding cutoff_def h_def using W by (intro unat_cutoff) simp_all
  have bounds: "h < 2 ^ W - 1" "(2 :: nat) ^ W \<le> 18446744073709551616"
    unfolding h_def by (rule pow2_bounds [OF W])+
  show ?thesis
  proof (cases "decimal ds \<le> 2 ^ W - 1")
    case True
    then have pu: "ParseUint W ds 0 = (of_nat (decimal ds), None)"
      using ParseUint_digits [OF ds W(2)] by simp
    have "decimal ds < 18446744073709551616"
      using True bounds(2) by linarith
    then have un: "unat (of_nat (decimal ds) :: 64 word) = decimal ds"
      by (simp add: unat_of_nat)
    have cmp: "(cutoff \<le> of_nat (decimal ds)) = (h \<le> decimal ds)"
      "(cutoff < of_nat (decimal ds)) = (h < decimal ds)"
      by (simp_all only: word_le_nat_alt word_less_nat_alt un cut)
    have pu': "ParseUint W (if hd s = CHR ''+'' \<or> hd s = CHR ''-'' then tl s else s) 0 =
      (of_nat (decimal ds), None)"
      by (simp only: rest pu)
    have "ParseInt W s 0 =
      (if hd s \<noteq> CHR ''-'' \<and> cutoff \<le> of_nat (decimal ds)
       then (cutoff - 1, Some (rangeError ''ParseInt'' s))
       else if hd s = CHR ''-'' \<and> cutoff < of_nat (decimal ds)
       then (- cutoff, Some (rangeError ''ParseInt'' s))
       else (if hd s = CHR ''-'' then - of_nat (decimal ds) else of_nat (decimal ds), None))"
      by (rule ParseInt_after_ParseUint [OF nonempty pu' _ cutoff_def, where x = ds]) simp
    then have "ParseInt W s 0 =
      (if hd s \<noteq> CHR ''-'' \<and> h \<le> decimal ds then (cutoff - 1, Some (rangeError ''ParseInt'' s))
       else if hd s = CHR ''-'' \<and> h < decimal ds then (- cutoff, Some (rangeError ''ParseInt'' s))
       else (if hd s = CHR ''-'' then - of_nat (decimal ds) else of_nat (decimal ds), None))"
      by (simp only: cmp)
    then show ?thesis
      unfolding cutoff_def [symmetric] h_def [symmetric] by auto
  next
    case False
    then have pu: "ParseUint W ds 0 = (push_bit W 1 - 1, Some (rangeError ''ParseUint'' ds))"
      using ParseUint_digits [OF ds W(2)] by simp
    have un: "unat (push_bit W 1 - 1 :: 64 word) = 2 ^ W - 1"
      using W(2) by (rule unat_maxVal)
    have big: "h < decimal ds"
      using False bounds(1) by linarith
    have cmp: "cutoff \<le> push_bit W 1 - 1" "cutoff < push_bit W 1 - 1"
      using bounds(1) by (simp_all only: word_le_nat_alt word_less_nat_alt un cut)
    have pu': "ParseUint W (if hd s = CHR ''+'' \<or> hd s = CHR ''-'' then tl s else s) 0 =
      (push_bit W 1 - 1, Some (rangeError ''ParseUint'' ds))"
      by (simp only: rest pu)
    have "ParseInt W s 0 =
      (if hd s \<noteq> CHR ''-'' \<and> cutoff \<le> push_bit W 1 - 1
       then (cutoff - 1, Some (rangeError ''ParseInt'' s))
       else if hd s = CHR ''-'' \<and> cutoff < push_bit W 1 - 1
       then (- cutoff, Some (rangeError ''ParseInt'' s))
       else (if hd s = CHR ''-'' then - (push_bit W 1 - 1) else push_bit W 1 - 1, None))"
      by (rule ParseInt_after_ParseUint [OF nonempty pu' _ cutoff_def, where x = ds]) simp
    then have "ParseInt W s 0 =
      (if hd s \<noteq> CHR ''-'' then (cutoff - 1, Some (rangeError ''ParseInt'' s))
       else (- cutoff, Some (rangeError ''ParseInt'' s)))"
      by (simp only: cmp simp_thms if_True if_False split: if_splits)
    then show ?thesis
      unfolding cutoff_def [symmetric] h_def [symmetric] using big by auto
  qed
qed

lemma three_le_maxVal:
  assumes "2 \<le> W" and "W \<le> 64"
  shows "\<not> (push_bit W 1 - 1 :: 64 word) < 3"
proof -
  have "(2 :: nat) ^ 2 \<le> 2 ^ W"
    by (rule power_increasing) (use assms(1) in simp_all)
  then have "3 \<le> unat (push_bit W 1 - 1 :: 64 word)"
    by (simp only: unat_maxVal [OF assms(2)]) simp
  then show ?thesis
    by (simp only: word_less_nat_alt) simp
qed

lemma ParseInt_fraction:
  assumes "2 \<le> W" and "W \<le> 64"
  shows "ParseInt W ''3.1'' 0 = (0, Some (syntaxError ''ParseInt'' ''3.1''))"
proof -
  have d3: "digitVal CHR ''3'' = Some 3" and dot: "digitVal CHR ''.'' = None"
    by (simp_all add: digitVal_def lower_def)
  have c: "cutoff10 \<noteq> 0"
    using unat_cutoff10 by auto
  have "ParseUint W ''3.1'' 0 = (0, Some (syntaxError ''ParseUint'' ''3.1''))"
    using three_le_maxVal [OF assms]
    by (simp add: ParseUint_def Let_def d3 dot c del: push_bit_of_1)
  then show ?thesis
    by (simp add: ParseInt_def syntaxError_def)
qed

lemma ParseInt_bad: "ParseInt W ''bad'' 0 = (0, Some (syntaxError ''ParseInt'' ''bad''))"
proof -
  have "digitVal CHR ''b'' = Some 11"
    by (simp add: digitVal_def lower_def)
  then have "ParseUint W ''bad'' 0 = (0, Some (syntaxError ''ParseUint'' ''bad''))"
    by (simp add: ParseUint_def Let_def)
  then show ?thesis
    by (simp add: ParseInt_def syntaxError_def)
qed

subsection \<open>The parsers on the texts of the package's tests\<close>

lemma ParseBool_empty: "ParseBool '''' = (False, Some (syntaxError ''ParseBool'' ''''))"
  by (simp add: ParseBool_def)


lemma ParseInt_overflow:
  "ParseInt 64 ''12345678901234567890'' 0 =
     (9223372036854775807, Some (rangeError ''ParseInt'' ''12345678901234567890''))"
  by code_simp

lemma ParseInt64_fraction: "ParseInt 64 ''3.1'' 64 = (0, Some (syntaxError ''ParseInt'' ''3.1''))"
  by code_simp

lemma ParseUint_minus_one: "ParseUint 32 ''-1'' 0 = (0, Some (syntaxError ''ParseUint'' ''-1''))"
  by code_simp

lemma ParseUint64_overflow:
  "ParseUint 64 ''123456789012345678901'' 64 =
     (18446744073709551615, Some (rangeError ''ParseUint'' ''123456789012345678901''))"
  by code_simp

lemma ParseBool_one: "ParseBool ''1'' = (True, None)"
  by (simp add: ParseBool_def)

lemma ParseInt_minus_one: "ParseInt 64 ''-1'' 0 = (- 1, None)"
  by code_simp

lemma ParseInt64_123: "ParseInt 64 ''123'' 64 = (123, None)"
  by code_simp

lemma ParseUint_123: "ParseUint 32 ''123'' 0 = (123, None)"
  by code_simp

lemma ParseUint64_large: "ParseUint 64 ''12345678901234567890'' 64 = (12345678901234567890, None)"
  by code_simp

lemma ParseBool_mixed_case: "ParseBool ''tRUE'' = (False, Some (syntaxError ''ParseBool'' ''tRUE''))"
  by (simp add: ParseBool_def)

lemma ParseBool_F: "ParseBool ''F'' = (False, None)"
  by (simp add: ParseBool_def)

subsection \<open>The messages and the errors of the parsers\<close>

lemma message_syntaxError:
  "NumError_Error Quote (syntaxError fn str) =
     ''strconv.'' @ fn @ '': parsing '' @ Quote str @ '': invalid syntax''"
  by (simp add: NumError_Error_def syntaxError_def)

lemma message_rangeError:
  "NumError_Error Quote (rangeError fn str) =
     ''strconv.'' @ fn @ '': parsing '' @ Quote str @ '': value out of range''"
  by (simp add: NumError_Error_def rangeError_def)



lemma last_message_rangeError: "last (NumError_Error Quote (rangeError fn str)) = CHR ''e''"
  by (simp add: message_rangeError)

lemma last_message_syntaxError: "last (NumError_Error Quote (syntaxError fn str)) = CHR ''x''"
  by (simp add: message_syntaxError)

lemma messages_differ:
  "NumError_Error Quote (rangeError fn str) \<noteq> NumError_Error Quote' (syntaxError fn' str')"
proof
  assume "NumError_Error Quote (rangeError fn str) = NumError_Error Quote' (syntaxError fn' str')"
  then have "last (NumError_Error Quote (rangeError fn str))
      = last (NumError_Error Quote' (syntaxError fn' str'))"
    by simp
  then show False
    by (simp only: last_message_rangeError last_message_syntaxError) simp
qed

subsection \<open>The errors of ParseDuration and ParseFloat, and Quote on plain text\<close>

text \<open>
  Every error of \<^verbatim>\<open>ParseDuration\<close> has one of three messages, each ending with the text
  as it was given. \<^verbatim>\<open>Quote\<close> leaves printable ASCII text without quotes and
  backslashes as it is, between two double quotes.
\<close>

lemma durationMessage_intros:
  "durationMessage orig (''time: invalid duration '' @ orig)"
  "durationMessage orig (''time: missing unit in duration '' @ orig)"
  "durationMessage orig (''time: unknown unit '' @ u @ '' in duration '' @ orig)"
  unfolding durationMessage_def by blast+

lemma ParseDuration_step_message:
  "case ParseDuration_step orig s d of Inl e \<Rightarrow> durationMessage orig e | Inr x \<Rightarrow> True"
  unfolding ParseDuration_step_def Let_def
  by (simp only: durationMessage_intros sum.case if_split prod.split option.split simp_thms
      split: if_split prod.split option.split)

lemma ParseDuration_step_error:
  "ParseDuration_step orig s d = Inl e \<Longrightarrow> durationMessage orig e"
  using ParseDuration_step_message [of orig s d] by simp

lemma ParseDuration_loop_error:
  "ParseDuration_loop orig s d = (v, Some e) \<Longrightarrow> durationMessage orig e"
proof (induction orig s d rule: ParseDuration_loop.induct)
  case (1 orig s d)
  show ?case
  proof (cases "s = []")
    case True
    with "1.prems" show ?thesis by simp
  next
    case False
    show ?thesis
    proof (cases "ParseDuration_step orig s d")
      case (Inl e')
      with False "1.prems" have "e = e'"
        by simp
      with Inl show ?thesis
        using ParseDuration_step_error by blast
    next
      case (Inr x)
      obtain s' d' where x: "x = (s', d')"
        by (cases x)
      from False Inr x "1.prems" have "ParseDuration_loop orig s' d' = (v, Some e)"
        by simp
      with "1.IH" [OF False Inr x [symmetric]] show ?thesis
        by simp
    qed
  qed
qed

lemma ParseDuration_error:
  assumes "ParseDuration s = (v, Some e)"
  shows "durationMessage s e"
proof -
  define s' where "s' = (if s \<noteq> [] \<and> (hd s = CHR ''-'' \<or> hd s = CHR ''+'') then tl s else s)"
  obtain d err where loop: "ParseDuration_loop s s' 0 = (d, err)"
    by (cases "ParseDuration_loop s s' 0")
  have unfold: "ParseDuration s =
      (if s' = ''0'' then (0, None)
       else if s' = [] then (0, Some (''time: invalid duration '' @ s))
       else case err of Some e \<Rightarrow> (0, Some e)
            | None \<Rightarrow> (if s \<noteq> [] \<and> hd s = CHR ''-'' then - d else d, None))"
    unfolding ParseDuration_def Let_def s'_def [symmetric] loop
    by (auto simp add: s'_def split: option.splits)
  show ?thesis
  proof (cases "s' = ''0''")
    case True
    with assms unfold show ?thesis by simp
  next
    case notzero: False
    show ?thesis
    proof (cases "s' = []")
      case True
      with assms unfold notzero have "e = ''time: invalid duration '' @ s"
        by simp
      then show ?thesis
        by (simp only: durationMessage_intros)
    next
      case False
      with assms unfold notzero obtain e' where "err = Some e'" and "e = e'"
        by (cases err) (simp_all split: if_splits)
      with loop show ?thesis
        using ParseDuration_loop_error by blast
    qed
  qed
qed

lemma ParseFloat_error:
  "ParseFloat atof s bitSize = (v, Some e) \<Longrightarrow>
   e = syntaxError ''ParseFloat'' s \<or> e = rangeError ''ParseFloat'' s"
  by (auto simp add: ParseFloat_def split: conversion.splits)

lemma appendEscapedRune_plain:
  "plainByte c \<Longrightarrow> appendEscapedRune isPrintTable (of_char c) = [c]"
  by (auto simp add: plainByte_def appendEscapedRune_def IsPrint_def EncodeRune_def)

lemma appendQuoted_plain:
  "list_all plainByte s \<Longrightarrow> appendQuoted isPrintTable s = s"
proof (induction s)
  case Nil
  show ?case by simp
next
  case (Cons c cs)
  then have c: "plainByte c" and cs: "appendQuoted isPrintTable cs = cs"
    by simp_all
  from c have small: "\<not> 0x80 \<le> (of_char c :: nat)" and "(of_char c :: nat) \<noteq> RuneError"
    by (simp_all add: plainByte_def RuneError_def)
  with c cs show ?case
    by (simp add: appendEscapedRune_plain)
qed

lemma strconvQuote_plain:
  "list_all plainByte s \<Longrightarrow> strconvQuote isPrintTable s = CHR 0x22 # s @ [CHR 0x22]"
  by (simp add: strconvQuote_def appendQuoted_plain)

subsection \<open>A present variable that does not parse: ordinary accessors\<close>

text \<open>
  Claim C2. When the variable is present and the parser of the type reports an error on
  its text, whatever the reason (the empty string, malformed text, a number too large
  for the width), each ordinary accessor (Bool, Duration, Float64, Int, Int64, Uint,
  Uint64) returns the default. An ordinary accessor returns a plain value of its type:
  it has no error result, and no error reaches the caller.
\<close>

theorem ordinary_parse_failure_returns_default:
  assumes "env name = Some strVal"
  shows "(snd (ParseBool strVal) \<noteq> None \<longrightarrow> Bool env name db = db)
    \<and> (snd (pd strVal) \<noteq> None \<longrightarrow> Duration pd env name dd = dd)
    \<and> (snd (pf strVal 64) \<noteq> None \<longrightarrow> Float64 pf env name df = df)
    \<and> (snd (ParseInt LENGTH('a) strVal 0) \<noteq> None \<longrightarrow> Int' env name (di :: 'a::len word) = di)
    \<and> (snd (ParseInt 64 strVal 64) \<noteq> None \<longrightarrow> Int64 env name di64 = di64)
    \<and> (snd (ParseUint LENGTH('b) strVal 0) \<noteq> None \<longrightarrow> Uint env name (du :: 'b::len word) = du)
    \<and> (snd (ParseUint 64 strVal 64) \<noteq> None \<longrightarrow> Uint64 env name du64 = du64)"
  using assms by (simp add: ordinary_defs LookupEnv_present Let_def split_beta)

text \<open>
  The texts are those of the tests: the empty string, a duration without a unit, text
  that is no number, a number beyond the 64 bits of \<^verbatim>\<open>int\<close>, a fraction, a negative
  number for \<^verbatim>\<open>uint\<close>, and a number beyond \<^verbatim>\<open>uint64\<close>.
\<close>

theorem ordinary_parse_failure_returns_default_witness:
  "snd (ParseBool '''') \<noteq> None
   \<and> Bool [''VALUE'' \<mapsto> ''''] ''VALUE'' True = True
   \<and> snd (sampleParseDuration ''30'') \<noteq> None
   \<and> Duration sampleParseDuration [''VALUE'' \<mapsto> ''30''] ''VALUE'' 3000000000 = 3000000000
   \<and> snd (sampleParseFloat ''bad'' 64) \<noteq> None
   \<and> Float64 sampleParseFloat [''VALUE'' \<mapsto> ''bad''] ''VALUE'' (321 / 1000) = 321 / 1000
   \<and> snd (ParseInt 64 ''12345678901234567890'' 0) \<noteq> None
   \<and> Int' [''VALUE'' \<mapsto> ''12345678901234567890''] ''VALUE'' (321 :: 64 word) = 321
   \<and> snd (ParseInt 64 ''3.1'' 64) \<noteq> None
   \<and> Int64 [''VALUE'' \<mapsto> ''3.1''] ''VALUE'' 321 = 321
   \<and> snd (ParseUint 32 ''-1'' 0) \<noteq> None
   \<and> Uint [''VALUE'' \<mapsto> ''-1''] ''VALUE'' (321 :: 32 word) = 321
   \<and> snd (ParseUint 64 ''123456789012345678901'' 64) \<noteq> None
   \<and> Uint64 [''VALUE'' \<mapsto> ''123456789012345678901''] ''VALUE'' 321 = 321"
proof -
  note at = ordinary_parse_failure_returns_default [where name = "''VALUE''"
      and pd = sampleParseDuration and pf = sampleParseFloat
      and db = True and dd = 3000000000 and df = "321 / 1000" and di = "321 :: 64 word"
      and ?di64.0 = 321 and du = "321 :: 32 word"]
  have "Bool [''VALUE'' \<mapsto> ''''] ''VALUE'' True = True"
    using at [where env = "[''VALUE'' \<mapsto> '''']" and strVal = "''''"]
    by (simp add: ParseBool_empty)
  moreover have "Duration sampleParseDuration [''VALUE'' \<mapsto> ''30''] ''VALUE'' 3000000000 = 3000000000"
    using at [where env = "[''VALUE'' \<mapsto> ''30'']" and strVal = "''30''"]
    by simp
  moreover have "Float64 sampleParseFloat [''VALUE'' \<mapsto> ''bad''] ''VALUE'' (321 / 1000) = 321 / 1000"
    using at [where env = "[''VALUE'' \<mapsto> ''bad'']" and strVal = "''bad''"]
    by simp
  moreover have "Int' [''VALUE'' \<mapsto> ''12345678901234567890''] ''VALUE'' (321 :: 64 word) = 321"
    using at [where env = "[''VALUE'' \<mapsto> ''12345678901234567890'']"
        and strVal = "''12345678901234567890''"]
    by (simp add: ParseInt_overflow)
  moreover have "Int64 [''VALUE'' \<mapsto> ''3.1''] ''VALUE'' 321 = 321"
    using at [where env = "[''VALUE'' \<mapsto> ''3.1'']" and strVal = "''3.1''"]
    by (simp add: ParseInt64_fraction)
  moreover have "Uint [''VALUE'' \<mapsto> ''-1''] ''VALUE'' (321 :: 32 word) = 321"
    using at [where env = "[''VALUE'' \<mapsto> ''-1'']" and strVal = "''-1''"]
    by (simp add: ParseUint_minus_one)
  moreover have "Uint64 [''VALUE'' \<mapsto> ''123456789012345678901''] ''VALUE'' 321 = 321"
    using at [where env = "[''VALUE'' \<mapsto> ''123456789012345678901'']"
        and strVal = "''123456789012345678901''"]
    by (simp add: ParseUint64_overflow)
  ultimately show ?thesis
    by (simp add: ParseBool_empty ParseInt_overflow ParseInt64_fraction ParseUint_minus_one
        ParseUint64_overflow)
qed

subsection \<open>A present variable that does not parse: strict accessors\<close>



subsection \<open>A present variable that parses\<close>

text \<open>
  Claim C4. When the variable is present and the parser of the type accepts its text,
  the ordinary accessor returns the parsed value (converted to the native type for
  \<^verbatim>\<open>int\<close> and \<^verbatim>\<open>uint\<close>), whatever the default, and the strict accessor returns the
  same value with no error.
\<close>

theorem parse_success_same_value:
  assumes "env name = Some strVal"
  shows "(snd (ParseBool strVal) = None \<longrightarrow>
            Bool env name db = fst (ParseBool strVal)
          \<and> BoolStrict env name db = (Bool env name db, None))
    \<and> (snd (pd strVal) = None \<longrightarrow>
            Duration pd env name dd = fst (pd strVal)
          \<and> DurationStrict pd env name dd = (Duration pd env name dd, None))
    \<and> (snd (pf strVal 64) = None \<longrightarrow>
            Float64 pf env name df = fst (pf strVal 64)
          \<and> Float64Strict pf env name df = (Float64 pf env name df, None))
    \<and> (snd (ParseInt LENGTH('a) strVal 0) = None \<longrightarrow>
            Int' env name (di :: 'a::len word) = scast (fst (ParseInt LENGTH('a) strVal 0))
          \<and> IntStrict env name di = (Int' env name di, None))
    \<and> (snd (ParseInt 64 strVal 64) = None \<longrightarrow>
            Int64 env name di64 = fst (ParseInt 64 strVal 64)
          \<and> Int64Strict env name di64 = (Int64 env name di64, None))
    \<and> (snd (ParseUint LENGTH('b) strVal 0) = None \<longrightarrow>
            Uint env name (du :: 'b::len word) = ucast (fst (ParseUint LENGTH('b) strVal 0))
          \<and> UintStrict env name du = (Uint env name du, None))
    \<and> (snd (ParseUint 64 strVal 64) = None \<longrightarrow>
            Uint64 env name du64 = fst (ParseUint 64 strVal 64)
          \<and> Uint64Strict env name du64 = (Uint64 env name du64, None))"
  using assms by (simp add: ordinary_defs strict_defs LookupEnv_present Let_def split_beta)

text \<open>Texts the tests of the package set, with the values they expect.\<close>

theorem parse_success_same_value_witness:
  "snd (ParseBool ''1'') = None
   \<and> Bool [''VALUE'' \<mapsto> ''1''] ''VALUE'' False = True
   \<and> BoolStrict [''VALUE'' \<mapsto> ''1''] ''VALUE'' False = (True, None)
   \<and> snd (sampleParseDuration ''200ms'') = None
   \<and> Duration sampleParseDuration [''VALUE'' \<mapsto> ''200ms''] ''VALUE'' 3000000000 = 200000000
   \<and> DurationStrict sampleParseDuration [''VALUE'' \<mapsto> ''200ms''] ''VALUE'' 3000000000
        = (200000000, None)
   \<and> snd (sampleParseFloat ''1.5'' 64) = None
   \<and> Float64 sampleParseFloat [''VALUE'' \<mapsto> ''1.5''] ''VALUE'' (321 / 1000) = 3 / 2
   \<and> Float64Strict sampleParseFloat [''VALUE'' \<mapsto> ''1.5''] ''VALUE'' (321 / 1000) = (3 / 2, None)
   \<and> snd (ParseInt 64 ''-1'' 0) = None
   \<and> Int' [''VALUE'' \<mapsto> ''-1''] ''VALUE'' (321 :: 64 word) = - 1
   \<and> IntStrict [''VALUE'' \<mapsto> ''-1''] ''VALUE'' (321 :: 64 word) = (- 1, None)
   \<and> snd (ParseInt 64 ''123'' 64) = None
   \<and> Int64 [''VALUE'' \<mapsto> ''123''] ''VALUE'' 321 = 123
   \<and> Int64Strict [''VALUE'' \<mapsto> ''123''] ''VALUE'' 321 = (123, None)
   \<and> snd (ParseUint 32 ''123'' 0) = None
   \<and> Uint [''VALUE'' \<mapsto> ''123''] ''VALUE'' (321 :: 32 word) = 123
   \<and> UintStrict [''VALUE'' \<mapsto> ''123''] ''VALUE'' (321 :: 32 word) = (123, None)
   \<and> snd (ParseUint 64 ''12345678901234567890'' 64) = None
   \<and> Uint64 [''VALUE'' \<mapsto> ''12345678901234567890''] ''VALUE'' 321 = 12345678901234567890
   \<and> Uint64Strict [''VALUE'' \<mapsto> ''12345678901234567890''] ''VALUE'' 321
        = (12345678901234567890, None)"
proof -
  note at = parse_success_same_value [where name = "''VALUE''"
      and pd = sampleParseDuration and pf = sampleParseFloat
      and db = False and dd = 3000000000 and df = "321 / 1000" and di = "321 :: 64 word"
      and ?di64.0 = 321 and du = "321 :: 32 word" and ?du64.0 = 321]
  have "Bool [''VALUE'' \<mapsto> ''1''] ''VALUE'' False = True
      \<and> BoolStrict [''VALUE'' \<mapsto> ''1''] ''VALUE'' False = (True, None)"
    using at [where env = "[''VALUE'' \<mapsto> ''1'']" and strVal = "''1''"]
    by (simp add: ParseBool_one)
  moreover have "Duration sampleParseDuration [''VALUE'' \<mapsto> ''200ms''] ''VALUE'' 3000000000 = 200000000
      \<and> DurationStrict sampleParseDuration [''VALUE'' \<mapsto> ''200ms''] ''VALUE'' 3000000000
        = (200000000, None)"
    using at [where env = "[''VALUE'' \<mapsto> ''200ms'']" and strVal = "''200ms''"]
    by simp
  moreover have "Float64 sampleParseFloat [''VALUE'' \<mapsto> ''1.5''] ''VALUE'' (321 / 1000) = 3 / 2
      \<and> Float64Strict sampleParseFloat [''VALUE'' \<mapsto> ''1.5''] ''VALUE'' (321 / 1000) = (3 / 2, None)"
    using at [where env = "[''VALUE'' \<mapsto> ''1.5'']" and strVal = "''1.5''"]
    by simp
  moreover have "Int' [''VALUE'' \<mapsto> ''-1''] ''VALUE'' (321 :: 64 word) = - 1
      \<and> IntStrict [''VALUE'' \<mapsto> ''-1''] ''VALUE'' (321 :: 64 word) = (- 1, None)"
    using at [where env = "[''VALUE'' \<mapsto> ''-1'']" and strVal = "''-1''"]
    by (simp add: ParseInt_minus_one)
  moreover have "Int64 [''VALUE'' \<mapsto> ''123''] ''VALUE'' 321 = 123
      \<and> Int64Strict [''VALUE'' \<mapsto> ''123''] ''VALUE'' 321 = (123, None)"
    using at [where env = "[''VALUE'' \<mapsto> ''123'']" and strVal = "''123''"]
    by (simp add: ParseInt64_123)
  moreover have "Uint [''VALUE'' \<mapsto> ''123''] ''VALUE'' (321 :: 32 word) = 123
      \<and> UintStrict [''VALUE'' \<mapsto> ''123''] ''VALUE'' (321 :: 32 word) = (123, None)"
    using at [where env = "[''VALUE'' \<mapsto> ''123'']" and strVal = "''123''"]
    by (simp add: ParseUint_123)
  moreover have "Uint64 [''VALUE'' \<mapsto> ''12345678901234567890''] ''VALUE'' 321 = 12345678901234567890
      \<and> Uint64Strict [''VALUE'' \<mapsto> ''12345678901234567890''] ''VALUE'' 321
        = (12345678901234567890, None)"
    using at [where env = "[''VALUE'' \<mapsto> ''12345678901234567890'']"
        and strVal = "''12345678901234567890''"]
    by (simp add: ParseUint64_large)
  ultimately show ?thesis
    by (simp add: ParseBool_one ParseInt_minus_one ParseInt64_123 ParseUint_123 ParseUint64_large)
qed

subsection \<open>String\<close>

text \<open>
  Claim C5. \<^verbatim>\<open>String\<close> returns the value of a present variable as it is, with no parsing;
  the empty string is such a value. It returns the default only when the variable is
  absent.
\<close>

theorem String_verbatim:
  "(env name = Some v \<longrightarrow> String env name defaultValue = v)
   \<and> (env name = None \<longrightarrow> String env name defaultValue = defaultValue)"
  by (simp add: String_def LookupEnv_def)

text \<open>A variable set to the empty string, one set to \<^verbatim>\<open>test\<close>, and an absent one.\<close>

theorem String_verbatim_witness:
  "[''VALUE'' \<mapsto> ''''] ''VALUE'' = Some ''''
   \<and> String [''VALUE'' \<mapsto> ''''] ''VALUE'' ''default'' = ''''
   \<and> [''VALUE'' \<mapsto> ''test''] ''VALUE'' = Some ''test''
   \<and> String [''VALUE'' \<mapsto> ''test''] ''VALUE'' ''default'' = ''test''
   \<and> (Map.empty :: environ) ''VALUE'' = None
   \<and> String Map.empty ''VALUE'' ''default'' = ''default''"
  using String_verbatim [of "[''VALUE'' \<mapsto> '''']" "''VALUE''" "''''" "''default''"]
    String_verbatim [of "[''VALUE'' \<mapsto> ''test'']" "''VALUE''" "''test''" "''default''"]
    String_verbatim [of Map.empty "''VALUE''" "''''" "''default''"]
  by simp

subsection \<open>The texts of a boolean\<close>

text \<open>
  Claim C6, as stated: every text that equals one of \<^verbatim>\<open>1 0 true false T F TRUE FALSE\<close> up
  to the case of its letters yields the truth value of that token from \<^verbatim>\<open>Bool\<close> and
  \<^verbatim>\<open>BoolStrict\<close>. This fails: \<^verbatim>\<open>tRUE\<close> equals \<^verbatim>\<open>true\<close> up to case, but
  \<^verbatim>\<open>ParseBool\<close> compares the text with twelve literals and \<^verbatim>\<open>tRUE\<close> is none of them, so
  \<^verbatim>\<open>Bool\<close> returns the default (here \<open>False\<close>) and \<^verbatim>\<open>BoolStrict\<close> a syntax error.
\<close>

theorem Bool_mixed_case_counterexample:
  "equalFold ''tRUE'' ''true''
   \<and> Bool [''VALUE'' \<mapsto> ''tRUE''] ''VALUE'' False = False
   \<and> BoolStrict [''VALUE'' \<mapsto> ''tRUE''] ''VALUE'' False
        = (False, Some \<lparr>Func = ''ParseBool'', Num = ''tRUE'', Err = ErrSyntax\<rparr>)"
proof -
  have "equalFold ''tRUE'' ''true''"
    by code_simp
  moreover have "Bool [''VALUE'' \<mapsto> ''tRUE''] ''VALUE'' False = False"
    by (simp add: Bool_def LookupEnv_def ParseBool_mixed_case)
  moreover have "BoolStrict [''VALUE'' \<mapsto> ''tRUE''] ''VALUE'' False
      = (False, Some \<lparr>Func = ''ParseBool'', Num = ''tRUE'', Err = ErrSyntax\<rparr>)"
    by (simp add: BoolStrict_def LookupEnv_def ParseBool_mixed_case syntaxError_def)
  ultimately show ?thesis
    by blast
qed

text \<open>
  Claim C6, amended. The texts \<^verbatim>\<open>1 t T TRUE true True\<close> yield \<open>True\<close> and the texts
  \<^verbatim>\<open>0 f F FALSE false False\<close> yield \<open>False\<close> from \<^verbatim>\<open>Bool\<close> and \<^verbatim>\<open>BoolStrict\<close> (with no
  error). On every other present text, the empty string and other spellings such as
  \<^verbatim>\<open>tRUE\<close> included, the parse fails: \<^verbatim>\<open>Bool\<close> returns the default and \<^verbatim>\<open>BoolStrict\<close>
  returns \<open>False\<close> with the syntax error of \<^verbatim>\<open>ParseBool\<close> on that text.
\<close>

theorem Bool_accepts_twelve_tokens:
  assumes "env name = Some strVal"
  shows "(strVal \<in> {''1'', ''t'', ''T'', ''TRUE'', ''true'', ''True''} \<longrightarrow>
            Bool env name d = True \<and> BoolStrict env name d = (True, None))
    \<and> (strVal \<in> {''0'', ''f'', ''F'', ''FALSE'', ''false'', ''False''} \<longrightarrow>
            Bool env name d = False \<and> BoolStrict env name d = (False, None))
    \<and> (strVal \<notin> {''1'', ''t'', ''T'', ''TRUE'', ''true'', ''True'',
                   ''0'', ''f'', ''F'', ''FALSE'', ''false'', ''False''} \<longrightarrow>
            Bool env name d = d
          \<and> BoolStrict env name d = (False, Some (syntaxError ''ParseBool'' strVal))
          \<and> NumError_Error Quote (syntaxError ''ParseBool'' strVal) =
               ''strconv.ParseBool: parsing '' @ Quote strVal @ '': invalid syntax'')"
proof -
  have "strVal \<in> {''1'', ''t'', ''T'', ''TRUE'', ''true'', ''True''} \<Longrightarrow>
      ParseBool strVal = (True, None)"
    by (auto simp add: ParseBool_def)
  moreover have "strVal \<in> {''0'', ''f'', ''F'', ''FALSE'', ''false'', ''False''} \<Longrightarrow>
      ParseBool strVal = (False, None)"
    by (auto simp add: ParseBool_def)
  moreover have "strVal \<notin> {''1'', ''t'', ''T'', ''TRUE'', ''true'', ''True'',
                   ''0'', ''f'', ''F'', ''FALSE'', ''false'', ''False''} \<Longrightarrow>
      ParseBool strVal = (False, Some (syntaxError ''ParseBool'' strVal))"
    by (simp add: ParseBool_def)
  moreover have "NumError_Error Quote (syntaxError ''ParseBool'' strVal) =
      ''strconv.ParseBool: parsing '' @ Quote strVal @ '': invalid syntax''"
    by (simp add: message_syntaxError)
  ultimately show ?thesis
    using assms by (simp add: Bool_def BoolStrict_def LookupEnv_present)
qed

text \<open>The texts \<^verbatim>\<open>1\<close>, \<^verbatim>\<open>F\<close> and the empty string, as in the tests.\<close>

theorem Bool_accepts_twelve_tokens_witness:
  "Bool [''VALUE'' \<mapsto> ''1''] ''VALUE'' False = True
   \<and> BoolStrict [''VALUE'' \<mapsto> ''1''] ''VALUE'' False = (True, None)
   \<and> Bool [''VALUE'' \<mapsto> ''F''] ''VALUE'' True = False
   \<and> BoolStrict [''VALUE'' \<mapsto> ''F''] ''VALUE'' True = (False, None)
   \<and> Bool [''VALUE'' \<mapsto> ''''] ''VALUE'' True = True
   \<and> BoolStrict [''VALUE'' \<mapsto> ''''] ''VALUE'' True
        = (False, Some (syntaxError ''ParseBool'' ''''))
   \<and> NumError_Error sampleQuote (syntaxError ''ParseBool'' '''')
        = ''strconv.ParseBool: parsing '' @ [CHR 0x22, CHR 0x22] @ '': invalid syntax''"
  using Bool_accepts_twelve_tokens [of "[''VALUE'' \<mapsto> ''1'']" "''VALUE''" "''1''" False sampleQuote]
    Bool_accepts_twelve_tokens [of "[''VALUE'' \<mapsto> ''F'']" "''VALUE''" "''F''" True sampleQuote]
    Bool_accepts_twelve_tokens [of "[''VALUE'' \<mapsto> '''']" "''VALUE''" "''''" True sampleQuote]
  by simp

subsection \<open>Unsigned accessors and a leading minus sign\<close>

text \<open>
  Claim C7. When the text of the variable starts with \<^verbatim>\<open>-\<close>, whatever follows,
  \<^verbatim>\<open>Uint\<close> and \<^verbatim>\<open>Uint64\<close> return the default, and \<^verbatim>\<open>UintStrict\<close> and
  \<^verbatim>\<open>Uint64Strict\<close> return zero with the syntax error of \<^verbatim>\<open>ParseUint\<close> on that text
  (message \<^verbatim>\<open>... invalid syntax\<close>), which is not a range error.
\<close>

theorem unsigned_rejects_leading_minus:
  assumes "env name = Some (CHR ''-'' # rest)"
  shows "Uint env name du = du
    \<and> Uint64 env name du64 = du64
    \<and> UintStrict env name du = (0, Some (syntaxError ''ParseUint'' (CHR ''-'' # rest)))
    \<and> Uint64Strict env name du64 = (0, Some (syntaxError ''ParseUint'' (CHR ''-'' # rest)))
    \<and> Err (syntaxError ''ParseUint'' (CHR ''-'' # rest)) = ErrSyntax
    \<and> syntaxError ''ParseUint'' (CHR ''-'' # rest) \<noteq> rangeError ''ParseUint'' (CHR ''-'' # rest)
    \<and> NumError_Error Quote (syntaxError ''ParseUint'' (CHR ''-'' # rest)) =
         ''strconv.ParseUint: parsing '' @ Quote (CHR ''-'' # rest) @ '': invalid syntax''"
proof -
  have "Err (syntaxError ''ParseUint'' (CHR ''-'' # rest)) = ErrSyntax"
    and "syntaxError ''ParseUint'' (CHR ''-'' # rest) \<noteq> rangeError ''ParseUint'' (CHR ''-'' # rest)"
    by (simp_all add: syntaxError_def rangeError_def)
  moreover have "Uint env name du = du \<and> Uint64 env name du64 = du64
    \<and> UintStrict env name du = (0, Some (syntaxError ''ParseUint'' (CHR ''-'' # rest)))
    \<and> Uint64Strict env name du64 = (0, Some (syntaxError ''ParseUint'' (CHR ''-'' # rest)))"
    using assms
    by (simp add: Uint_def Uint64_def UintStrict_def Uint64Strict_def LookupEnv_present
        ParseUint_leading_minus)
  moreover have "NumError_Error Quote (syntaxError ''ParseUint'' (CHR ''-'' # rest)) =
      ''strconv.ParseUint: parsing '' @ Quote (CHR ''-'' # rest) @ '': invalid syntax''"
    by (simp add: message_syntaxError)
  ultimately show ?thesis
    by blast
qed

text \<open>The text \<^verbatim>\<open>-1\<close>, whose magnitude would fit, with the default 321.\<close>

theorem unsigned_rejects_leading_minus_witness:
  "[''VALUE'' \<mapsto> ''-1''] ''VALUE'' = Some (CHR ''-'' # ''1'')
   \<and> Uint [''VALUE'' \<mapsto> ''-1''] ''VALUE'' (321 :: 64 word) = 321
   \<and> Uint64 [''VALUE'' \<mapsto> ''-1''] ''VALUE'' 321 = 321
   \<and> UintStrict [''VALUE'' \<mapsto> ''-1''] ''VALUE'' (321 :: 64 word)
        = (0, Some \<lparr>Func = ''ParseUint'', Num = ''-1'', Err = ErrSyntax\<rparr>)
   \<and> Uint64Strict [''VALUE'' \<mapsto> ''-1''] ''VALUE'' 321
        = (0, Some \<lparr>Func = ''ParseUint'', Num = ''-1'', Err = ErrSyntax\<rparr>)
   \<and> NumError_Error sampleQuote \<lparr>Func = ''ParseUint'', Num = ''-1'', Err = ErrSyntax\<rparr>
        = ''strconv.ParseUint: parsing '' @ [CHR 0x22] @ ''-1'' @ [CHR 0x22] @ '': invalid syntax''"
proof -
  have present: "[''VALUE'' \<mapsto> ''-1''] ''VALUE'' = Some (CHR ''-'' # ''1'')"
    by simp
  show ?thesis
    using present
      unsigned_rejects_leading_minus [where env = "[''VALUE'' \<mapsto> ''-1'']" and name = "''VALUE''"
        and rest = "''1''" and du = "321 :: 64 word" and ?du64.0 = 321 and Quote = sampleQuote,
        OF present]
    by (simp add: syntaxError_def)
qed

subsection \<open>Signed integers out of range\<close>

text \<open>
  Claim C8. Let the text of the variable be an optional sign followed by at least one
  decimal digit, and let the number it denotes lie outside the range of the signed type
  of width \<open>W\<close> (\<^verbatim>\<open>int\<close>, with \<open>W\<close> between 2 and 64): at least \<open>2 ^ (W - 1)\<close> without a
  minus sign, more than \<open>2 ^ (W - 1)\<close> with one. Then \<^verbatim>\<open>Int\<close> returns the default and
  \<^verbatim>\<open>IntStrict\<close> returns zero with the range error of \<^verbatim>\<open>ParseInt\<close> on that text, whose
  message ends in \<^verbatim>\<open>value out of range\<close>. The malformed texts \<^verbatim>\<open>3.1\<close> and \<^verbatim>\<open>bad\<close> give
  a syntax error instead, and the message of a range error is never the message of a
  syntax error.
\<close>

theorem IntStrict_out_of_range:
  fixes d :: "'a::len word"
  assumes env: "env name = Some strVal"
    and width: "2 \<le> LENGTH('a)" "LENGTH('a) \<le> 64"
    and digits: "ds \<noteq> []" "list_all isDigit ds"
    and shape: "strVal = ds \<or> strVal = CHR ''+'' # ds \<or> strVal = CHR ''-'' # ds"
    and exceeds: "if hd strVal = CHR ''-'' then 2 ^ (LENGTH('a) - 1) < decimal ds
                  else 2 ^ (LENGTH('a) - 1) \<le> decimal ds"
  shows "Int' env name d = d
    \<and> IntStrict env name d = (0, Some (rangeError ''ParseInt'' strVal))
    \<and> NumError_Error Quote (rangeError ''ParseInt'' strVal) =
         ''strconv.ParseInt: parsing '' @ Quote strVal @ '': value out of range''
    \<and> IntStrict (env(name \<mapsto> ''3.1'')) name d = (0, Some (syntaxError ''ParseInt'' ''3.1''))
    \<and> IntStrict (env(name \<mapsto> ''bad'')) name d = (0, Some (syntaxError ''ParseInt'' ''bad''))
    \<and> NumError_Error Quote (syntaxError ''ParseInt'' t) =
         ''strconv.ParseInt: parsing '' @ Quote t @ '': invalid syntax''
    \<and> NumError_Error Quote (rangeError ''ParseInt'' strVal)
         \<noteq> NumError_Error Quote (syntaxError ''ParseInt'' t)"
proof -
  have "\<exists>v. ParseInt LENGTH('a) strVal 0 = (v, Some (rangeError ''ParseInt'' strVal))"
    using exceeds by (simp only: ParseInt_digits [OF digits width shape] split: if_splits) auto
  then obtain v where range: "ParseInt LENGTH('a) strVal 0 = (v, Some (rangeError ''ParseInt'' strVal))"
    by blast
  have "Int' env name d = d"
    and "IntStrict env name d = (0, Some (rangeError ''ParseInt'' strVal))"
    using env by (simp_all add: Int'_def IntStrict_def LookupEnv_present range)
  moreover have "IntStrict (env(name \<mapsto> ''3.1'')) name d = (0, Some (syntaxError ''ParseInt'' ''3.1''))"
    by (simp add: IntStrict_def LookupEnv_def ParseInt_fraction [OF width])
  moreover have "IntStrict (env(name \<mapsto> ''bad'')) name d = (0, Some (syntaxError ''ParseInt'' ''bad''))"
    by (simp add: IntStrict_def LookupEnv_def ParseInt_bad)
  moreover have "NumError_Error Quote (rangeError ''ParseInt'' strVal) =
      ''strconv.ParseInt: parsing '' @ Quote strVal @ '': value out of range''"
    and "NumError_Error Quote (syntaxError ''ParseInt'' t) =
      ''strconv.ParseInt: parsing '' @ Quote t @ '': invalid syntax''"
    by (simp_all add: message_rangeError message_syntaxError)
  moreover note messages_differ [of Quote "''ParseInt''" strVal Quote "''ParseInt''" t]
  ultimately show ?thesis
    by blast
qed

text \<open>
  The text of the tests, \<^verbatim>\<open>12345678901234567890\<close>, for a 64-bit \<^verbatim>\<open>int\<close>, and
  \<^verbatim>\<open>-2147483649\<close>, one below the least value, for a 32-bit \<^verbatim>\<open>int\<close>.
\<close>

theorem IntStrict_out_of_range_witness:
  "list_all isDigit ''12345678901234567890''
   \<and> decimal ''12345678901234567890'' = 12345678901234567890
   \<and> (2 :: nat) ^ 63 \<le> 12345678901234567890
   \<and> Int' [''VALUE'' \<mapsto> ''12345678901234567890''] ''VALUE'' (321 :: 64 word) = 321
   \<and> IntStrict [''VALUE'' \<mapsto> ''12345678901234567890''] ''VALUE'' (321 :: 64 word)
        = (0, Some \<lparr>Func = ''ParseInt'', Num = ''12345678901234567890'', Err = ErrRange\<rparr>)
   \<and> NumError_Error sampleQuote \<lparr>Func = ''ParseInt'', Num = ''12345678901234567890'', Err = ErrRange\<rparr>
        = ''strconv.ParseInt: parsing '' @ [CHR 0x22] @ ''12345678901234567890'' @ [CHR 0x22]
            @ '': value out of range''
   \<and> IntStrict [''VALUE'' \<mapsto> ''3.1''] ''VALUE'' (321 :: 64 word)
        = (0, Some \<lparr>Func = ''ParseInt'', Num = ''3.1'', Err = ErrSyntax\<rparr>)
   \<and> IntStrict [''VALUE'' \<mapsto> ''bad''] ''VALUE'' (321 :: 64 word)
        = (0, Some \<lparr>Func = ''ParseInt'', Num = ''bad'', Err = ErrSyntax\<rparr>)
   \<and> NumError_Error sampleQuote \<lparr>Func = ''ParseInt'', Num = ''bad'', Err = ErrSyntax\<rparr>
        = ''strconv.ParseInt: parsing '' @ [CHR 0x22] @ ''bad'' @ [CHR 0x22] @ '': invalid syntax''
   \<and> list_all isDigit ''2147483649''
   \<and> decimal ''2147483649'' = 2147483649
   \<and> (2 :: nat) ^ 31 < 2147483649
   \<and> Int' [''VALUE'' \<mapsto> ''-2147483649''] ''VALUE'' (321 :: 32 word) = 321
   \<and> IntStrict [''VALUE'' \<mapsto> ''-2147483649''] ''VALUE'' (321 :: 32 word)
        = (0, Some \<lparr>Func = ''ParseInt'', Num = ''-2147483649'', Err = ErrRange\<rparr>)"
proof -
  have digits64: "list_all isDigit ''12345678901234567890''"
    by (simp add: isDigit_def)
  have val64: "decimal ''12345678901234567890'' = 12345678901234567890"
    by (simp add: decimal_def)
  have bound64: "(2 :: nat) ^ 63 \<le> 12345678901234567890"
    by simp
  have digits32: "list_all isDigit ''2147483649''"
    by (simp add: isDigit_def)
  have val32: "decimal ''2147483649'' = 2147483649"
    by (simp add: decimal_def)
  have bound32: "(2 :: nat) ^ 31 < 2147483649"
    by simp
  have at64: "Int' [''VALUE'' \<mapsto> ''12345678901234567890''] ''VALUE'' (321 :: 64 word) = 321
    \<and> IntStrict [''VALUE'' \<mapsto> ''12345678901234567890''] ''VALUE'' (321 :: 64 word)
        = (0, Some (rangeError ''ParseInt'' ''12345678901234567890''))
    \<and> NumError_Error sampleQuote (rangeError ''ParseInt'' ''12345678901234567890'') =
         ''strconv.ParseInt: parsing '' @ sampleQuote ''12345678901234567890'' @ '': value out of range''
    \<and> IntStrict ([''VALUE'' \<mapsto> ''12345678901234567890''](''VALUE'' \<mapsto> ''3.1'')) ''VALUE'' (321 :: 64 word)
        = (0, Some (syntaxError ''ParseInt'' ''3.1''))
    \<and> IntStrict ([''VALUE'' \<mapsto> ''12345678901234567890''](''VALUE'' \<mapsto> ''bad'')) ''VALUE'' (321 :: 64 word)
        = (0, Some (syntaxError ''ParseInt'' ''bad''))
    \<and> NumError_Error sampleQuote (syntaxError ''ParseInt'' ''bad'') =
         ''strconv.ParseInt: parsing '' @ sampleQuote ''bad'' @ '': invalid syntax''
    \<and> NumError_Error sampleQuote (rangeError ''ParseInt'' ''12345678901234567890'')
         \<noteq> NumError_Error sampleQuote (syntaxError ''ParseInt'' ''bad'')"
    by (rule IntStrict_out_of_range [where ds = "''12345678901234567890''"])
      (simp_all add: isDigit_def decimal_def)
  have at32: "Int' [''VALUE'' \<mapsto> ''-2147483649''] ''VALUE'' (321 :: 32 word) = 321
    \<and> IntStrict [''VALUE'' \<mapsto> ''-2147483649''] ''VALUE'' (321 :: 32 word)
        = (0, Some (rangeError ''ParseInt'' ''-2147483649''))
    \<and> NumError_Error sampleQuote (rangeError ''ParseInt'' ''-2147483649'') =
         ''strconv.ParseInt: parsing '' @ sampleQuote ''-2147483649'' @ '': value out of range''
    \<and> IntStrict ([''VALUE'' \<mapsto> ''-2147483649''](''VALUE'' \<mapsto> ''3.1'')) ''VALUE'' (321 :: 32 word)
        = (0, Some (syntaxError ''ParseInt'' ''3.1''))
    \<and> IntStrict ([''VALUE'' \<mapsto> ''-2147483649''](''VALUE'' \<mapsto> ''bad'')) ''VALUE'' (321 :: 32 word)
        = (0, Some (syntaxError ''ParseInt'' ''bad''))
    \<and> NumError_Error sampleQuote (syntaxError ''ParseInt'' ''bad'') =
         ''strconv.ParseInt: parsing '' @ sampleQuote ''bad'' @ '': invalid syntax''
    \<and> NumError_Error sampleQuote (rangeError ''ParseInt'' ''-2147483649'')
         \<noteq> NumError_Error sampleQuote (syntaxError ''ParseInt'' ''bad'')"
    by (rule IntStrict_out_of_range [where ds = "''2147483649''"])
      (simp_all add: isDigit_def decimal_def)
  show ?thesis
    using at64 at32 digits64 val64 bound64 digits32 val32 bound32
    by (simp add: rangeError_def syntaxError_def)
qed

subsection \<open>Native width 64\<close>

text \<open>
  Claim C9. Where the native integers have 64 bits (\<^verbatim>\<open>int\<close> and \<^verbatim>\<open>uint\<close> are
  \<open>64 word\<close>, \<^verbatim>\<open>IntSize\<close> is 64), the native accessors are the 64-bit ones: for every
  environment, name and default, \<^verbatim>\<open>Int\<close> equals \<^verbatim>\<open>Int64\<close>, \<^verbatim>\<open>IntStrict\<close> equals
  \<^verbatim>\<open>Int64Strict\<close>, \<^verbatim>\<open>Uint\<close> equals \<^verbatim>\<open>Uint64\<close> and \<^verbatim>\<open>UintStrict\<close> equals
  \<^verbatim>\<open>Uint64Strict\<close>, values and errors alike.
\<close>

theorem native_64_agrees_with_fixed_64:
  "Int' env name (d :: 64 word) = Int64 env name d
   \<and> IntStrict env name d = Int64Strict env name d
   \<and> Uint env name d = Uint64 env name d
   \<and> UintStrict env name d = Uint64Strict env name d"
  by (simp add: Int'_def Int64_def IntStrict_def Int64Strict_def Uint_def Uint64_def
      UintStrict_def Uint64Strict_def ParseInt_native64 ParseUint_native64 Let_def split_beta)

subsection \<open>Only the named variable matters\<close>

text \<open>
  Claim C10. The result of every accessor depends on the environment only through the
  entry of \<open>name\<close>: two environments that agree there (both without the variable, or
  both with the same text) give the same result for the same arguments, whatever else
  they hold.
\<close>

theorem depends_only_on_named_variable:
  assumes "env1 name = env2 name"
  shows "Bool env1 name db = Bool env2 name db
    \<and> BoolStrict env1 name db = BoolStrict env2 name db
    \<and> Duration pd env1 name dd = Duration pd env2 name dd
    \<and> DurationStrict pd env1 name dd = DurationStrict pd env2 name dd
    \<and> Float64 pf env1 name df = Float64 pf env2 name df
    \<and> Float64Strict pf env1 name df = Float64Strict pf env2 name df
    \<and> Int' env1 name di = Int' env2 name di
    \<and> IntStrict env1 name di = IntStrict env2 name di
    \<and> Int64 env1 name di64 = Int64 env2 name di64
    \<and> Int64Strict env1 name di64 = Int64Strict env2 name di64
    \<and> String env1 name ds = String env2 name ds
    \<and> Uint env1 name du = Uint env2 name du
    \<and> UintStrict env1 name du = UintStrict env2 name du
    \<and> Uint64 env1 name du64 = Uint64 env2 name du64
    \<and> Uint64Strict env1 name du64 = Uint64Strict env2 name du64"
proof -
  have "LookupEnv env1 name = LookupEnv env2 name"
    using assms by (simp add: LookupEnv_def)
  then show ?thesis
    by (simp add: ordinary_defs strict_defs)
qed

text \<open>Two environments that agree on \<^verbatim>\<open>VALUE\<close> and differ on \<^verbatim>\<open>OTHER\<close>.\<close>

theorem depends_only_on_named_variable_witness:
  "[''VALUE'' \<mapsto> ''1'', ''OTHER'' \<mapsto> ''x''] ''VALUE'' = [''VALUE'' \<mapsto> ''1'', ''HOME'' \<mapsto> ''/''] ''VALUE''
   \<and> [''VALUE'' \<mapsto> ''1'', ''OTHER'' \<mapsto> ''x''] ''OTHER'' \<noteq> [''VALUE'' \<mapsto> ''1'', ''HOME'' \<mapsto> ''/''] ''OTHER''
   \<and> Bool [''VALUE'' \<mapsto> ''1'', ''OTHER'' \<mapsto> ''x''] ''VALUE'' False
        = Bool [''VALUE'' \<mapsto> ''1'', ''HOME'' \<mapsto> ''/''] ''VALUE'' False
   \<and> BoolStrict [''VALUE'' \<mapsto> ''1'', ''OTHER'' \<mapsto> ''x''] ''VALUE'' False
        = BoolStrict [''VALUE'' \<mapsto> ''1'', ''HOME'' \<mapsto> ''/''] ''VALUE'' False
   \<and> Duration sampleParseDuration [''VALUE'' \<mapsto> ''1'', ''OTHER'' \<mapsto> ''x''] ''VALUE'' 3000000000
        = Duration sampleParseDuration [''VALUE'' \<mapsto> ''1'', ''HOME'' \<mapsto> ''/''] ''VALUE'' 3000000000
   \<and> DurationStrict sampleParseDuration [''VALUE'' \<mapsto> ''1'', ''OTHER'' \<mapsto> ''x''] ''VALUE'' 3000000000
        = DurationStrict sampleParseDuration [''VALUE'' \<mapsto> ''1'', ''HOME'' \<mapsto> ''/''] ''VALUE'' 3000000000
   \<and> Float64 sampleParseFloat [''VALUE'' \<mapsto> ''1'', ''OTHER'' \<mapsto> ''x''] ''VALUE'' (321 / 1000)
        = Float64 sampleParseFloat [''VALUE'' \<mapsto> ''1'', ''HOME'' \<mapsto> ''/''] ''VALUE'' (321 / 1000)
   \<and> Float64Strict sampleParseFloat [''VALUE'' \<mapsto> ''1'', ''OTHER'' \<mapsto> ''x''] ''VALUE'' (321 / 1000)
        = Float64Strict sampleParseFloat [''VALUE'' \<mapsto> ''1'', ''HOME'' \<mapsto> ''/''] ''VALUE'' (321 / 1000)
   \<and> Int' [''VALUE'' \<mapsto> ''1'', ''OTHER'' \<mapsto> ''x''] ''VALUE'' (321 :: 64 word)
        = Int' [''VALUE'' \<mapsto> ''1'', ''HOME'' \<mapsto> ''/''] ''VALUE'' 321
   \<and> IntStrict [''VALUE'' \<mapsto> ''1'', ''OTHER'' \<mapsto> ''x''] ''VALUE'' (321 :: 64 word)
        = IntStrict [''VALUE'' \<mapsto> ''1'', ''HOME'' \<mapsto> ''/''] ''VALUE'' 321
   \<and> Int64 [''VALUE'' \<mapsto> ''1'', ''OTHER'' \<mapsto> ''x''] ''VALUE'' 321
        = Int64 [''VALUE'' \<mapsto> ''1'', ''HOME'' \<mapsto> ''/''] ''VALUE'' 321
   \<and> Int64Strict [''VALUE'' \<mapsto> ''1'', ''OTHER'' \<mapsto> ''x''] ''VALUE'' 321
        = Int64Strict [''VALUE'' \<mapsto> ''1'', ''HOME'' \<mapsto> ''/''] ''VALUE'' 321
   \<and> String [''VALUE'' \<mapsto> ''1'', ''OTHER'' \<mapsto> ''x''] ''VALUE'' ''default''
        = String [''VALUE'' \<mapsto> ''1'', ''HOME'' \<mapsto> ''/''] ''VALUE'' ''default''
   \<and> Uint [''VALUE'' \<mapsto> ''1'', ''OTHER'' \<mapsto> ''x''] ''VALUE'' (321 :: 32 word)
        = Uint [''VALUE'' \<mapsto> ''1'', ''HOME'' \<mapsto> ''/''] ''VALUE'' 321
   \<and> UintStrict [''VALUE'' \<mapsto> ''1'', ''OTHER'' \<mapsto> ''x''] ''VALUE'' (321 :: 32 word)
        = UintStrict [''VALUE'' \<mapsto> ''1'', ''HOME'' \<mapsto> ''/''] ''VALUE'' 321
   \<and> Uint64 [''VALUE'' \<mapsto> ''1'', ''OTHER'' \<mapsto> ''x''] ''VALUE'' 321
        = Uint64 [''VALUE'' \<mapsto> ''1'', ''HOME'' \<mapsto> ''/''] ''VALUE'' 321
   \<and> Uint64Strict [''VALUE'' \<mapsto> ''1'', ''OTHER'' \<mapsto> ''x''] ''VALUE'' 321
        = Uint64Strict [''VALUE'' \<mapsto> ''1'', ''HOME'' \<mapsto> ''/''] ''VALUE'' 321"
proof -
  have agree: "[''VALUE'' \<mapsto> ''1'', ''OTHER'' \<mapsto> ''x''] ''VALUE''
      = [''VALUE'' \<mapsto> ''1'', ''HOME'' \<mapsto> ''/''] ''VALUE''"
    by simp
  have differ: "[''VALUE'' \<mapsto> ''1'', ''OTHER'' \<mapsto> ''x''] ''OTHER''
      \<noteq> [''VALUE'' \<mapsto> ''1'', ''HOME'' \<mapsto> ''/''] ''OTHER''"
    by simp
  show ?thesis
    using agree differ
      depends_only_on_named_variable [where ?env1.0 = "[''VALUE'' \<mapsto> ''1'', ''OTHER'' \<mapsto> ''x'']"
        and ?env2.0 = "[''VALUE'' \<mapsto> ''1'', ''HOME'' \<mapsto> ''/'']" and name = "''VALUE''"
        and pd = sampleParseDuration and pf = sampleParseFloat
        and db = False and dd = 3000000000 and df = "321 / 1000" and di = "321 :: 64 word"
        and ?di64.0 = 321 and ds = "''default''" and du = "321 :: 32 word" and ?du64.0 = 321,
        OF agree]
    by blast
qed

end
